theory Spec2Isabelle
  imports Complex_Main "HOL-Library.Word"
begin

section \<open>C and Python values\<close>

text \<open>
  The extension type \<open>AdjacencyCore\<close> of \<open>core.c\<close> is embedded function by function.
  A C \<open>int\<close> is a 32-bit word: \<open>+\<close> and \<open>*\<close> wrap around, \<open>sint\<close> reads the
  two's complement value, and a comparison of two \<open>int\<close>s compares their \<open>sint\<close>.
  A C \<open>double\<close> is a real number: rounding, infinities and NaN are outside the
  model. A raised Python exception is a value \<open>PyErr kind format arguments\<close>
  (the arguments are those of a \<open>%d\<close> in the format of \<open>PyErr_Format\<close>).
\<close>

type_synonym cint = "32 word"

datatype exc = RuntimeError | TypeError | ValueError | OverflowError

datatype pyerr = PyErr exc string "int list"

datatype pyobj = PyFloat real | PyLong int | PyStr string | PyNone

text \<open>
  A numpy array: its dimensions and its elements in row-major order, each element
  the Python object that \<open>PyArray_GETITEM\<close> returns for it.
\<close>

record ndarray =
  nd_shape :: "nat list"
  nd_items :: "pyobj list"

definition PyArray_NDIM :: "ndarray \<Rightarrow> nat" where
  "PyArray_NDIM a = length (nd_shape a)"

definition PyArray_DIM :: "ndarray \<Rightarrow> nat \<Rightarrow> nat" where
  "PyArray_DIM a k = nd_shape a ! k"

definition PyArray_GETITEM1 :: "ndarray \<Rightarrow> nat \<Rightarrow> pyobj" where
  "PyArray_GETITEM1 a i = nd_items a ! i"

definition PyArray_GETITEM2 :: "ndarray \<Rightarrow> nat \<Rightarrow> nat \<Rightarrow> pyobj" where
  "PyArray_GETITEM2 a i j = nd_items a ! (i * PyArray_DIM a 1 + j)"

text \<open>
  \<open>PyFloat_AsDouble\<close>: the converted value and the exception it raises, if any. On an
  error it returns \<open>-1.0\<close>. A Python int converts unless it is too large for a
  double (from \<open>2^1024 - 2^970\<close> on, which rounds to \<open>2^1024\<close>).
\<close>

definition PyFloat_AsDouble :: "pyobj \<Rightarrow> real \<times> exc option" where
  "PyFloat_AsDouble ob =
     (case ob of
        PyFloat r \<Rightarrow> (r, None)
      | PyLong k \<Rightarrow>
          (if \<bar>k\<bar> < 2 ^ 1024 - 2 ^ 970 then (of_int k, None) else (- 1, Some OverflowError))
      | PyStr s \<Rightarrow> (- 1, Some TypeError)
      | PyNone \<Rightarrow> (- 1, Some TypeError))"

definition bind_err :: "pyerr + 'a \<Rightarrow> ('a \<Rightarrow> pyerr + 'b) \<Rightarrow> pyerr + 'b" where
  "bind_err r k = (case r of Inl e \<Rightarrow> Inl e | Inr v \<Rightarrow> k v)"

text \<open>The format units \<open>i\<close> (a C int) and \<open>d\<close> (a C double) of \<open>PyArg_ParseTuple\<close>.\<close>

definition parse_i :: "pyobj \<Rightarrow> pyerr + cint" where
  "parse_i ob =
     (case ob of
        PyLong k \<Rightarrow>
          (if - (2 ^ 31) \<le> k \<and> k < 2 ^ 31 then Inr (word_of_int k)
           else Inl (PyErr OverflowError ''signed integer out of the range of a C int'' []))
      | PyFloat r \<Rightarrow> Inl (PyErr TypeError ''an integer is required'' [])
      | PyStr s \<Rightarrow> Inl (PyErr TypeError ''an integer is required'' [])
      | PyNone \<Rightarrow> Inl (PyErr TypeError ''an integer is required'' []))"

definition parse_d :: "pyobj \<Rightarrow> pyerr + real" where
  "parse_d ob =
     (case PyFloat_AsDouble ob of
        (v, None) \<Rightarrow> Inr v
      | (v, Some e) \<Rightarrow> Inl (PyErr e ''a real number is required'' []))"

section \<open>The summation engine's plan\<close>

text \<open>
  The NFFT fast summation library is not part of the repository. Its plan is a record
  of what the core passes to it and of the four buffers the core reads and writes:
  the source nodes \<open>x\<close>, the source weights \<open>alpha\<close>, the target nodes \<open>y\<close> and
  the results \<open>f\<close>. A buffer pointer is \<open>None\<close> when it is \<open>NULL\<close>.
\<close>

datatype kernel_fn = gaussian | xx_gaussian | laplacian_rbf

datatype plan_flag = STORE_PERMUTATION_X_ALPHA

record fastsum_plan =
  fs_d :: cint
  fs_kernel :: kernel_fn
  fs_kernel_param :: real
  fs_flags :: plan_flag
  fs_nn :: cint
  fs_p :: cint
  fs_eps_I :: real
  fs_eps_B :: real
  fs_N_total :: cint
  fs_src_nn_oversampled :: cint
  fs_src_m :: cint
  fs_M_total :: cint
  fs_tgt_nn_oversampled :: cint
  fs_tgt_m :: cint
  fs_x :: "real list option"
  fs_alpha :: "complex list option"
  fs_y :: "real list option"
  fs_f :: "complex list option"

text \<open>
  Modelled from the spec: the engine's \<open>createPlan(dim, kernelFn, kernelParam, N, p, eps)\<close>,
  \<open>bindSourceNodes(handle, n, NN, m)\<close> and \<open>bindTargetNodes(handle, n, NN, m)\<close>. Binding
  allocates the node storage: \<open>n * d\<close> coordinates and \<open>n\<close> complex values on each
  side. The contents of fresh storage are not specified by C; the model fills it
  with zeros, and every buffer entry the core reads has been written before.
  Releasing nodes frees the storage and leaves the pointers to the core.
\<close>

definition fastsum_init_guru_kernel ::
  "cint \<Rightarrow> kernel_fn \<Rightarrow> real \<Rightarrow> plan_flag \<Rightarrow> cint \<Rightarrow> cint \<Rightarrow> real \<Rightarrow> real \<Rightarrow> fastsum_plan" where
  "fastsum_init_guru_kernel d k param flags nn p eps_I eps_B =
     \<lparr>fs_d = d, fs_kernel = k, fs_kernel_param = param, fs_flags = flags, fs_nn = nn,
      fs_p = p, fs_eps_I = eps_I, fs_eps_B = eps_B, fs_N_total = 0,
      fs_src_nn_oversampled = 0, fs_src_m = 0, fs_M_total = 0,
      fs_tgt_nn_oversampled = 0, fs_tgt_m = 0,
      fs_x = None, fs_alpha = None, fs_y = None, fs_f = None\<rparr>"

definition fastsum_init_guru_source_nodes ::
  "fastsum_plan \<Rightarrow> cint \<Rightarrow> cint \<Rightarrow> cint \<Rightarrow> fastsum_plan" where
  "fastsum_init_guru_source_nodes pl n nn_oversampled m =
     pl\<lparr>fs_N_total := n, fs_src_nn_oversampled := nn_oversampled, fs_src_m := m,
        fs_x := Some (replicate (nat (sint n) * nat (sint (fs_d pl))) 0),
        fs_alpha := Some (replicate (nat (sint n)) 0)\<rparr>"

definition fastsum_init_guru_target_nodes ::
  "fastsum_plan \<Rightarrow> cint \<Rightarrow> cint \<Rightarrow> cint \<Rightarrow> fastsum_plan" where
  "fastsum_init_guru_target_nodes pl n nn_oversampled m =
     pl\<lparr>fs_M_total := n, fs_tgt_nn_oversampled := nn_oversampled, fs_tgt_m := m,
        fs_y := Some (replicate (nat (sint n) * nat (sint (fs_d pl))) 0),
        fs_f := Some (replicate (nat (sint n)) 0)\<rparr>"

definition fastsum_finalize_source_nodes :: "fastsum_plan \<Rightarrow> fastsum_plan" where
  "fastsum_finalize_source_nodes pl = pl"

definition fastsum_finalize_target_nodes :: "fastsum_plan \<Rightarrow> fastsum_plan" where
  "fastsum_finalize_target_nodes pl = pl"

text \<open>
  The engine's computations are parameters of the model: the precomputation and the
  two transforms (approximate and exact) map a plan to a plan.
\<close>

record fastsum_engine =
  fastsum_precompute :: "fastsum_plan \<Rightarrow> fastsum_plan"
  fastsum_trafo :: "fastsum_plan \<Rightarrow> fastsum_plan"
  fastsum_exact :: "fastsum_plan \<Rightarrow> fastsum_plan"

section \<open>The operator\<close>

record AdjacencyCoreObject =
  ac_kernel :: cint
  ac_d :: cint
  ac_sigma :: real
  ac_N :: cint
  ac_p :: cint
  ac_m :: cint
  ac_eps :: real
  ac_NN :: cint
  ac_diagonal :: real
  ac_n :: cint
  ac_fastsum :: "fastsum_plan option"

text \<open>The object \<open>PyType_GenericNew\<close> hands to \<open>tp_init\<close>: all bytes zero.\<close>

definition new_object :: AdjacencyCoreObject where
  "new_object =
     \<lparr>ac_kernel = 0, ac_d = 0, ac_sigma = 0, ac_N = 0, ac_p = 0, ac_m = 0, ac_eps = 0,
      ac_NN = 0, ac_diagonal = 0, ac_n = 0, ac_fastsum = None\<rparr>"

definition check_fastsum :: "AdjacencyCoreObject \<Rightarrow> pyerr + unit" where
  "check_fastsum self =
     (if ac_fastsum self \<noteq> None then Inr ()
      else Inl (PyErr RuntimeError ''Invalid NFFT fastsum object'' []))"

definition null_nodes :: "fastsum_plan \<Rightarrow> fastsum_plan" where
  "null_nodes pl = pl\<lparr>fs_x := None, fs_y := None, fs_alpha := None, fs_f := None\<rparr>"

definition remove_points :: "AdjacencyCoreObject \<Rightarrow> AdjacencyCoreObject" where
  "remove_points self =
     (if ac_n self \<noteq> 0 then
        self\<lparr>ac_fastsum :=
                map_option
                  (\<lambda>pl. null_nodes
                     (fastsum_finalize_source_nodes (fastsum_finalize_target_nodes pl)))
                  (ac_fastsum self),
             ac_n := 0\<rparr>
      else self)"

subsection \<open>Construction\<close>

text \<open>
  \<open>PyArg_ParseTuple(args, "iidiiid|i", ...)\<close>: seven or eight arguments, converted
  in order and stored into the fields; an eighth argument, when given, is \<open>NN\<close>,
  and the field keeps its value when it is not given. When a conversion fails the
  constructor returns \<open>-1\<close> and Python discards the object: the model returns the
  exception only.
\<close>

definition parse_init_args :: "AdjacencyCoreObject \<Rightarrow> pyobj list \<Rightarrow> pyerr + AdjacencyCoreObject" where
  "parse_init_args self args =
     (if length args < 7 \<or> 8 < length args then
        Inl (PyErr TypeError ''function takes at least 7 and at most 8 arguments'' [])
      else
        bind_err (parse_i (args ! 0)) (\<lambda>k.
        bind_err (parse_i (args ! 1)) (\<lambda>d.
        bind_err (parse_d (args ! 2)) (\<lambda>sigma.
        bind_err (parse_i (args ! 3)) (\<lambda>N.
        bind_err (parse_i (args ! 4)) (\<lambda>p.
        bind_err (parse_i (args ! 5)) (\<lambda>m.
        bind_err (parse_d (args ! 6)) (\<lambda>eps.
        bind_err (if length args = 8 then parse_i (args ! 7) else Inr (ac_NN self)) (\<lambda>NN.
          Inr (self\<lparr>ac_kernel := k, ac_d := d, ac_sigma := sigma, ac_N := N,
                    ac_p := p, ac_m := m, ac_eps := eps, ac_NN := NN\<rparr>))))))))))"

text \<open>The loop \<open>while (2*self->N > self->NN) self->NN *= 2;\<close>. It need not end.\<close>

partial_function (option) init_NN_loop :: "cint \<Rightarrow> cint \<Rightarrow> cint option" where
  "init_NN_loop N NN =
     (if sint NN < sint (2 * N) then init_NN_loop N (NN * 2) else Some NN)"

definition init_kernel_fn :: "cint \<Rightarrow> kernel_fn" where
  "init_kernel_fn k =
     (if k = 1 then gaussian
      else if k = 2 then xx_gaussian
      else if k = 3 then laplacian_rbf
      else gaussian)"

text \<open>
  \<open>AdjacencyCore_init\<close> returns \<open>None\<close> when the loop does not end, \<open>Some (Inl e)\<close>
  when it returns \<open>-1\<close> with the exception \<open>e\<close> set, and \<open>Some (Inr self')\<close>
  when it returns \<open>0\<close>.
\<close>

definition AdjacencyCore_init ::
  "AdjacencyCoreObject \<Rightarrow> pyobj list \<Rightarrow> (pyerr + AdjacencyCoreObject) option" where
  "AdjacencyCore_init self args =
     (case parse_init_args self args of
        Inl e \<Rightarrow> Some (Inl e)
      | Inr s \<Rightarrow>
          (case (if ac_NN s = 0 then init_NN_loop (ac_N s) 2 else Some (ac_NN s)) of
             None \<Rightarrow> None
           | Some NN \<Rightarrow>
               Some (Inr (s\<lparr>ac_NN := NN, ac_diagonal := 0,
                    ac_fastsum :=
                      Some (null_nodes
                        (fastsum_init_guru_kernel (ac_d s) (init_kernel_fn (ac_kernel s))
                           (ac_sigma s) STORE_PERMUTATION_X_ALPHA (ac_N s) (ac_p s) 0 (ac_eps s))),
                    ac_n := 0\<rparr>))))"

subsection \<open>Buffers\<close>

text \<open>
  An index into a C buffer is an \<open>int\<close>. A store through \<open>NULL\<close> or outside the
  buffer is undefined in C: the model leaves the buffer as it is. A load there is
  unspecified in the model as well. The theorems about stored values assume buffers
  of the size the engine allocates.
\<close>

definition store_at :: "'a list \<Rightarrow> cint \<Rightarrow> 'a \<Rightarrow> 'a list" where
  "store_at xs k v =
     (if 0 \<le> sint k \<and> nat (sint k) < length xs then xs[nat (sint k) := v] else xs)"

definition store :: "'a list option \<Rightarrow> cint \<Rightarrow> 'a \<Rightarrow> 'a list option" where
  "store buf k v = map_option (\<lambda>xs. store_at xs k v) buf"

definition load_at :: "'a list \<Rightarrow> cint \<Rightarrow> 'a" where
  "load_at xs k = xs ! nat (sint k)"

definition load :: "'a list option \<Rightarrow> cint \<Rightarrow> 'a" where
  "load buf k = load_at (the buf) k"

subsection \<open>The points accessor\<close>

text \<open>
  The argument of the setter: no value or \<open>None\<close>, an object that
  \<open>PyArray_Converter\<close> refuses, or the array it converts to.
\<close>

datatype points_arg = NoPoints | NotAnArray | PointsArray ndarray

definition AdjacencyCore_getpoints :: "AdjacencyCoreObject \<Rightarrow> pyerr + ndarray option" where
  "AdjacencyCore_getpoints self =
     (case check_fastsum self of
        Inl e \<Rightarrow> Inl e
      | Inr u \<Rightarrow>
          (if ac_n self = 0 then Inr None
           else
             let dims0 = nat (sint (ac_n self));
                 dims1 = nat (sint (ac_d self))
             in Inr (Some \<lparr>nd_shape = [dims0, dims1],
                    nd_items =
                      map PyFloat (take (dims0 * dims1) (the (fs_x (the (ac_fastsum self)))))\<rparr>)))"

text \<open>
  The body of the two nested loops of the setter, for the row \<open>i\<close> and the column
  \<open>j\<close>. The state is the plan and whether a Python exception is pending
  (\<open>PyErr_Occurred\<close>).
\<close>

definition setpoints_item ::
  "ndarray \<Rightarrow> cint \<Rightarrow> nat \<Rightarrow> nat \<Rightarrow> fastsum_plan \<times> bool \<Rightarrow> fastsum_plan \<times> bool" where
  "setpoints_item array d i j st =
     (let item = PyArray_GETITEM2 array i j;
          x = PyFloat_AsDouble item;
          k = word_of_nat i * d + word_of_nat j
      in ((fst st)\<lparr>fs_x := store (fs_x (fst st)) k (fst x),
                   fs_y := store (fs_y (fst st)) k (fst x)\<rparr>,
          snd st \<or> snd x \<noteq> None))"

definition setpoints_loop ::
  "ndarray \<Rightarrow> cint \<Rightarrow> cint \<Rightarrow> fastsum_plan \<times> bool \<Rightarrow> fastsum_plan \<times> bool" where
  "setpoints_loop array n d st =
     fold (\<lambda>i. fold (\<lambda>j. setpoints_item array d i j) [0..<nat (sint d)]) [0..<nat (sint n)] st"

definition points_shape_error :: "cint \<Rightarrow> pyerr" where
  "points_shape_error d =
     PyErr TypeError ''AdjacencyCore.points must be a 2D numpy array with %d columns'' [sint d]"

definition AdjacencyCore_setpoints ::
  "fastsum_engine \<Rightarrow> AdjacencyCoreObject \<Rightarrow> points_arg \<Rightarrow> (pyerr + unit) \<times> AdjacencyCoreObject" where
  "AdjacencyCore_setpoints E self arg =
     (case check_fastsum self of
        Inl e \<Rightarrow> (Inl e, self)
      | Inr u \<Rightarrow>
          (let d = ac_d self;
               self1 = remove_points self
           in case arg of
                NoPoints \<Rightarrow> (Inr (), self1)
              | NotAnArray \<Rightarrow> (Inl (points_shape_error d), self1)
              | PointsArray array \<Rightarrow>
                  (if PyArray_NDIM array \<noteq> 2 \<or> int (PyArray_DIM array 1) \<noteq> sint d then
                     (Inl (points_shape_error d), self1)
                   else
                     let n = (word_of_nat (PyArray_DIM array 0) :: cint) in
                     if 0 < sint n then
                       let pl1 = fastsum_init_guru_source_nodes (the (ac_fastsum self1))
                                   n (ac_NN self1) (ac_m self1);
                           pl2 = fastsum_init_guru_target_nodes pl1 n (ac_NN self1) (ac_m self1);
                           st = setpoints_loop array n d (pl2, False);
                           self2 = self1\<lparr>ac_n := n, ac_fastsum := Some (fst st)\<rparr>
                       in if snd st then
                            (Inl (PyErr TypeError
                               ''AdjacencyCore.points items must be floating point numbers'' []),
                             remove_points self2)
                          else
                            (Inr (), self2\<lparr>ac_fastsum := Some (fastsum_precompute E (fst st))\<rparr>)
                     else (Inr (), self1))))"

subsection \<open>The matrix-vector product\<close>

definition apply_load :: "ndarray \<Rightarrow> nat \<Rightarrow> fastsum_plan \<times> bool \<Rightarrow> fastsum_plan \<times> bool" where
  "apply_load array i st =
     (let item = PyArray_GETITEM1 array i;
          v = PyFloat_AsDouble item
      in ((fst st)\<lparr>fs_alpha := store (fs_alpha (fst st)) (word_of_nat i) (Complex (fst v) 0)\<rparr>,
          snd st \<or> snd v \<noteq> None))"

text \<open>
  The result array. Line 269 creates it with
  \<open>PyArray_SimpleNew(1, (npy_intp*) &n, NPY_DOUBLE)\<close>: \<open>n\<close> is an \<open>int\<close> of four
  bytes, and numpy reads an \<open>npy_intp\<close> at its address. On a little-endian build with
  64-bit pointers that is eight bytes: \<open>n\<close> in the low half, and in the high half the
  word that follows \<open>n\<close> in the frame of the function. Which word that is, is the
  compiler's choice: it is a parameter of the model, given the values of \<open>n\<close> and of
  \<open>exact\<close>. In a build that keeps the locals \<open>int i, n, exact\<close> in the order of
  their declaration it is the flag \<open>exact\<close>, 0 or 1. The second parameter says how
  many doubles numpy can allocate.
\<close>

record numpy_env =
  word_after_n :: "cint \<Rightarrow> bool \<Rightarrow> cint"
  can_allocate :: "nat \<Rightarrow> bool"

definition apply_dim :: "cint \<Rightarrow> cint \<Rightarrow> int" where
  "apply_dim n hi = uint n + 2 ^ 32 * sint hi"

text \<open>
  \<open>PyArray_SimpleNew\<close> for one dimension: the data of the new array, or \<open>None\<close> for
  the \<open>NULL\<close> it returns when the dimension is negative or the memory is not there.
  The fresh data, not specified by C, is zeros in the model.
\<close>

definition PyArray_SimpleNew1 :: "numpy_env \<Rightarrow> int \<Rightarrow> real list option" where
  "PyArray_SimpleNew1 M len =
     (if 0 \<le> len \<and> can_allocate M (nat len) then Some (replicate (nat len) 0) else None)"

text \<open>
  One store of the result loops:
  \<open>data[i] = CREAL(f[i]) + c * CREAL(alpha[i])\<close>.
\<close>

definition apply_store :: "fastsum_plan \<Rightarrow> real \<Rightarrow> nat \<Rightarrow> real list \<Rightarrow> real list" where
  "apply_store pl c i data =
     store_at data (word_of_nat i)
       (Re (load (fs_f pl) (word_of_nat i)) + c * Re (load (fs_alpha pl) (word_of_nat i)))"

text \<open>
  The arguments of \<open>apply\<close> after \<open>PyArg_ParseTupleAndKeywords\<close> with the format
  \<open>O&|p\<close>: \<open>None\<close> when the parse fails, else the converted array and the flag
  \<open>exact\<close>. \<open>AdjacencyCore_apply\<close> returns \<open>None\<close> when the process dies: numpy
  has returned \<open>NULL\<close> for the result array, and \<open>PyArray_ENABLEFLAGS\<close> on the
  next line writes through it.
\<close>

definition AdjacencyCore_apply ::
  "fastsum_engine \<Rightarrow> numpy_env \<Rightarrow> AdjacencyCoreObject \<Rightarrow> (ndarray \<times> bool) option
     \<Rightarrow> ((pyerr + ndarray) \<times> AdjacencyCoreObject) option" where
  "AdjacencyCore_apply E M self args =
     (case check_fastsum self of
        Inl e \<Rightarrow> Some (Inl e, self)
      | Inr u \<Rightarrow>
          (let n = ac_n self in
           if n = 0 then
             Some (Inl (PyErr RuntimeError
                ''AdjacencyCore.points must be given before calling AdjacencyCore.apply'' []),
              self)
           else
             case args of
               None \<Rightarrow>
                 Some (Inl (PyErr TypeError ''Invalid input to AdjacencyCore.apply'' []), self)
             | Some (array, exact) \<Rightarrow>
                 (if PyArray_NDIM array \<noteq> 1 \<or> int (PyArray_DIM array 0) \<noteq> sint n then
                    Some (Inl (PyErr ValueError
                       ''First input to AdjacencyCore.apply must be a 1D numpy array with %d entries''
                       [sint n]),
                     self)
                  else
                    let st = fold (apply_load array) [0..<nat (sint n)]
                               (the (ac_fastsum self), False)
                    in if snd st then
                         Some (Inl (PyErr TypeError
                            ''AdjacencyCore.apply requires a vector of floating point numbers'' []),
                          self\<lparr>ac_fastsum := Some (fst st)\<rparr>)
                       else
                         let pl = (if exact then fastsum_exact E (fst st)
                                   else fastsum_trafo E (fst st));
                             len = apply_dim n (word_after_n M n exact)
                         in case PyArray_SimpleNew1 M len of
                              None \<Rightarrow> None
                            | Some fresh \<Rightarrow>
                                (let data =
                                   (if ac_kernel self = 1 then
                                      fold (apply_store pl (ac_diagonal self - 1))
                                        [0..<nat (sint n)] fresh
                                    else if ac_kernel self = 2 then
                                      fold (apply_store pl (ac_diagonal self))
                                        [0..<nat (sint n)] fresh
                                    else if ac_kernel self = 3 then
                                      fold (apply_store pl (ac_diagonal self - 1))
                                        [0..<nat (sint n)] fresh
                                    else
                                      fold (apply_store pl (ac_diagonal self - 1))
                                        [0..<nat (sint n)] fresh)
                                 in Some (Inr \<lparr>nd_shape = [nat len],
                                               nd_items = map PyFloat data\<rparr>,
                                          self\<lparr>ac_fastsum := Some pl\<rparr>)))))"

subsection \<open>The normalized eigen-decomposition\<close>

text \<open>
  ARPACK is not part of the repository. The model keeps the arrays the core shares
  with it in a record, and takes the two drivers as parameters: \<open>dsaupd_c\<close> (one
  step of the reverse communication, called with \<open>n\<close>, \<open>nev\<close>, \<open>tol\<close>,
  \<open>ncv\<close> and \<open>lworkl\<close>) and \<open>dseupd_c\<close> (the extraction, called with
  \<open>rvecs\<close> first). The matrix kind \<open>I\<close>, the selection \<open>LM\<close> and \<open>A\<close>,
  the shift \<open>0.0\<close> and the leading dimension \<open>n\<close> are constants of the calls.
\<close>

record arpack_state =
  ar_ido :: cint
  ar_info :: cint
  ar_resid :: "real list"
  ar_v :: "real list"
  ar_workd :: "real list"
  ar_workl :: "real list"
  ar_d :: "real list"
  ar_iparam :: "cint list"
  ar_ipntr :: "cint list"
  ar_select :: "cint list"

record arpack =
  dsaupd_c :: "cint \<Rightarrow> cint \<Rightarrow> real \<Rightarrow> cint \<Rightarrow> cint \<Rightarrow> arpack_state \<Rightarrow> arpack_state"
  dseupd_c :: "bool \<Rightarrow> cint \<Rightarrow> cint \<Rightarrow> real \<Rightarrow> cint \<Rightarrow> cint \<Rightarrow> arpack_state \<Rightarrow> arpack_state"

text \<open>
  The arguments after \<open>PyArg_ParseTupleAndKeywords\<close> with the format \<open>i|diip\<close>:
  \<open>nev\<close> and the optional \<open>tol\<close>, \<open>maxiter\<close>, \<open>ncv\<close> and
  \<open>return_eigenvectors\<close>.
\<close>

record eigs_args =
  ea_nev :: cint
  ea_tol :: "real option"
  ea_maxiter :: "cint option"
  ea_ncv :: "cint option"
  ea_return_eigenvectors :: "bool option"

datatype eigs_result = Eigenvalues ndarray | Eigenpairs ndarray ndarray

text \<open>Lines 332 to 339: the Krylov subspace dimension that is passed to ARPACK.\<close>

definition eigs_ncv :: "cint \<Rightarrow> cint \<Rightarrow> cint \<Rightarrow> cint" where
  "eigs_ncv n nev ncv =
     (if sint ncv \<le> 0 then
        (if sint nev < 10 then 20
         else if sint n \<le> sint (2 * nev) then n
         else 2 * nev + 1)
      else ncv)"

definition eigs_maxiter :: "cint \<Rightarrow> cint" where
  "eigs_maxiter maxiter = (if sint maxiter \<le> 0 then 300 else maxiter)"

definition eigs_degrees :: "AdjacencyCoreObject \<Rightarrow> fastsum_plan \<Rightarrow> real list" where
  "eigs_degrees self pl =
     (if ac_kernel self = 1 then
        map (\<lambda>i. 1 / sqrt (Re (load (fs_f pl) (word_of_nat i)) + ac_diagonal self - 1))
          [0..<nat (sint (ac_n self))]
      else if ac_kernel self = 2 then
        map (\<lambda>i. 1 / sqrt (Re (load (fs_f pl) (word_of_nat i)) + ac_diagonal self))
          [0..<nat (sint (ac_n self))]
      else if ac_kernel self = 3 then
        map (\<lambda>i. 1 / sqrt (Re (load (fs_f pl) (word_of_nat i)) + ac_diagonal self - 1))
          [0..<nat (sint (ac_n self))]
      else
        map (\<lambda>i. 1 / sqrt (Re (load (fs_f pl) (word_of_nat i)) + ac_diagonal self - 1))
          [0..<nat (sint (ac_n self))])"

text \<open>
  One store of the matrix-vector product:
  \<open>workd[ipntr[1] + i] = workd[ipntr[0] + i] + d_invsqrt[i] * (CREAL(f[i]) + c * CREAL(alpha[i]))\<close>.
\<close>

definition eigs_store ::
  "fastsum_plan \<Rightarrow> real list \<Rightarrow> cint list \<Rightarrow> real \<Rightarrow> nat \<Rightarrow> real list \<Rightarrow> real list" where
  "eigs_store pl d_invsqrt ipntr c i workd =
     store_at workd (ipntr ! 1 + word_of_nat i)
       (load_at workd (ipntr ! 0 + word_of_nat i)
        + d_invsqrt ! i
          * (Re (load (fs_f pl) (word_of_nat i)) + c * Re (load (fs_alpha pl) (word_of_nat i))))"

definition eigs_matvec ::
  "fastsum_engine \<Rightarrow> AdjacencyCoreObject \<Rightarrow> real list \<Rightarrow> fastsum_plan \<times> arpack_state
     \<Rightarrow> fastsum_plan \<times> arpack_state" where
  "eigs_matvec E self d_invsqrt st =
     (let n = nat (sint (ac_n self));
          ar = snd st;
          pl1 = fold (\<lambda>i pl. pl\<lparr>fs_alpha := store (fs_alpha pl) (word_of_nat i)
                       (Complex (d_invsqrt ! i
                          * load_at (ar_workd ar) (ar_ipntr ar ! 0 + word_of_nat i)) 0)\<rparr>)
                  [0..<n] (fst st);
          pl2 = fastsum_trafo E pl1;
          workd =
            (if ac_kernel self = 1 then
               fold (eigs_store pl2 d_invsqrt (ar_ipntr ar) (ac_diagonal self - 1)) [0..<n]
                 (ar_workd ar)
             else if ac_kernel self = 2 then
               fold (eigs_store pl2 d_invsqrt (ar_ipntr ar) (ac_diagonal self)) [0..<n]
                 (ar_workd ar)
             else if ac_kernel self = 3 then
               fold (eigs_store pl2 d_invsqrt (ar_ipntr ar) (ac_diagonal self - 1)) [0..<n]
                 (ar_workd ar)
             else
               fold (eigs_store pl2 d_invsqrt (ar_ipntr ar) (ac_diagonal self - 1)) [0..<n]
                 (ar_workd ar))
      in (pl2, ar\<lparr>ar_workd := workd\<rparr>))"

text \<open>The loop \<open>while (1)\<close> around \<open>dsaupd_c\<close>: it ends when ARPACK stops asking for a product.\<close>

partial_function (option) eigs_loop ::
  "fastsum_engine \<Rightarrow> arpack \<Rightarrow> AdjacencyCoreObject \<Rightarrow> cint \<Rightarrow> real \<Rightarrow> cint \<Rightarrow> cint \<Rightarrow> real list
     \<Rightarrow> fastsum_plan \<times> arpack_state \<Rightarrow> (fastsum_plan \<times> arpack_state) option" where
  "eigs_loop E A self nev tol ncv lworkl d_invsqrt st =
     (let ar = dsaupd_c A (ac_n self) nev tol ncv lworkl (snd st) in
      if ar_ido ar = 1 \<or> ar_ido ar = - 1 then
        eigs_loop E A self nev tol ncv lworkl d_invsqrt (eigs_matvec E self d_invsqrt (fst st, ar))
      else Some (fst st, ar))"

definition eigs_eigenvalues :: "cint \<Rightarrow> real list \<Rightarrow> ndarray" where
  "eigs_eigenvalues nev d =
     \<lparr>nd_shape = [nat (sint nev)],
      nd_items = map (\<lambda>j. PyFloat (load_at d (word_of_nat j) - 1)) [0..<nat (sint nev)]\<rparr>"

definition eigs_eigenvectors :: "cint \<Rightarrow> cint \<Rightarrow> real list \<Rightarrow> ndarray" where
  "eigs_eigenvectors n nev v =
     \<lparr>nd_shape = [nat (sint n), nat (sint nev)],
      nd_items =
        map PyFloat
          (fold (\<lambda>i. fold (\<lambda>j data. store_at data (word_of_nat i * nev + word_of_nat j)
                                    (load_at v (word_of_nat j * n + word_of_nat i)))
                        [0..<nat (sint nev)])
             [0..<nat (sint n)] (replicate (nat (sint n) * nat (sint nev)) 0))\<rparr>"

text \<open>
  \<open>AdjacencyCore_normalized_eigs\<close> returns \<open>None\<close> when the loop around
  \<open>dsaupd_c\<close> does not end. The line it prints after the loop is not modelled.
\<close>

definition AdjacencyCore_normalized_eigs ::
  "fastsum_engine \<Rightarrow> arpack \<Rightarrow> AdjacencyCoreObject \<Rightarrow> eigs_args option
     \<Rightarrow> ((pyerr + eigs_result) \<times> AdjacencyCoreObject) option" where
  "AdjacencyCore_normalized_eigs E A self args =
     (case check_fastsum self of
        Inl e \<Rightarrow> Some (Inl e, self)
      | Inr u \<Rightarrow>
          (let n = ac_n self in
           if n = 0 then
             Some (Inl (PyErr RuntimeError
                ''AdjacencyCore.points must be given before calling AdjacencyCore.eigs'' []),
              self)
           else
             case args of
               None \<Rightarrow> Some (Inl (PyErr TypeError ''Invalid input to AdjacencyCore.eigs'' []), self)
             | Some a \<Rightarrow>
                 (let nev = ea_nev a;
                      tol = (case ea_tol a of None \<Rightarrow> 0 | Some t \<Rightarrow> t);
                      rvecs = (case ea_return_eigenvectors a of None \<Rightarrow> True | Some r \<Rightarrow> r);
                      ncv = eigs_ncv n nev (case ea_ncv a of None \<Rightarrow> 0 | Some c \<Rightarrow> c);
                      maxiter = eigs_maxiter (case ea_maxiter a of None \<Rightarrow> 0 | Some c \<Rightarrow> c);
                      pl0 = fold (\<lambda>i pl. pl\<lparr>fs_alpha :=
                                   store (fs_alpha pl) (word_of_nat i) (Complex 1 0)\<rparr>)
                              [0..<nat (sint n)] (the (ac_fastsum self));
                      pl1 = fastsum_trafo E pl0;
                      d_invsqrt = eigs_degrees self pl1;
                      lworkl = ncv * (ncv + 8);
                      ar0 = \<lparr>ar_ido = 0, ar_info = 0,
                             ar_resid = replicate (nat (sint n)) 0,
                             ar_v = replicate (nat (sint (n * ncv))) 0,
                             ar_workd = replicate (nat (sint (3 * n))) 0,
                             ar_workl = replicate (nat (sint lworkl)) 0,
                             ar_d = replicate (nat (sint nev)) 0,
                             ar_iparam = [1, 0, maxiter, 1, 0, 0, 1, 0, 0, 0, 0],
                             ar_ipntr = replicate 11 0,
                             ar_select = replicate (nat (sint ncv)) 0\<rparr>
                  in case eigs_loop E A self nev tol ncv lworkl d_invsqrt (pl1, ar0) of
                       None \<Rightarrow> None
                     | Some (pl2, ar1) \<Rightarrow>
                         (let self1 = self\<lparr>ac_fastsum := Some pl2\<rparr> in
                          if sint (ar_info ar1) < 0 then
                            Some (Inl (PyErr RuntimeError
                               ''ARPACK 'dsaupd' failed with error code %d'' [sint (ar_info ar1)]),
                             self1)
                          else
                            let ar2 = dseupd_c A rvecs n nev tol ncv lworkl ar1 in
                            if sint (ar_info ar2) < 0 then
                              Some (Inl (PyErr RuntimeError
                                 ''ARPACK 'dseupd' failed with error code %d'' [sint (ar_info ar2)]),
                               self1)
                            else if rvecs then
                              Some (Inr (Eigenpairs (eigs_eigenvalues nev (ar_d ar2))
                                           (eigs_eigenvectors n nev (ar_v ar2))),
                                    self1)
                            else Some (Inr (Eigenvalues (eigs_eigenvalues nev (ar_d ar2))), self1)))))"

section \<open>The spec's diagonal correction and the documented default\<close>

text \<open>
  The spec's Kernel Policy, in its words: for the Gaussian (kernel 1), the LaplacianRBF
  (kernel 3) and the default variant the correction is \<open>(diagonal - 1.0) * weight\<close>,
  for the SquaredGaussian (kernel 2) it is \<open>diagonal * weight\<close>. The entries that
  \<open>AdjacencyCore_apply\<close> returns are compared with it below.
\<close>

definition spec_diagonalCorrection :: "cint \<Rightarrow> real \<Rightarrow> real \<Rightarrow> real" where
  "spec_diagonalCorrection k diagonal weight =
     (if k = 1 \<or> k = 3 then (diagonal - 1) * weight
      else if k = 2 then diagonal * weight
      else (diagonal - 1) * weight)"

text \<open>
  The default of \<open>ncv\<close> as the comment on line 317 of the source documents it:
  \<open>min(n, max(2*k+1, 20))\<close>, with \<open>k\<close> the number of eigenvalues.
\<close>

definition eigs_ncv_documented :: "int \<Rightarrow> int \<Rightarrow> int" where
  "eigs_ncv_documented n k = min n (max (2 * k + 1) 20)"

section \<open>Example values\<close>

text \<open>
  Concrete values for the instances below: an engine whose transforms sum the weights
  (the kernel sum of the kernel that is constantly one) and leave everything else
  alone, three layouts of the frame of \<open>apply\<close> and of numpy's memory (a zero
  word after \<open>n\<close>; the flag \<open>exact\<close> after \<open>n\<close>, with fewer than \<open>2^32\<close>
  entries to allocate; the same with no limit), an eigensolver that stops at once, one
  that stops at once and reports the negated \<open>ncv\<close> it was called with as its error
  code, the operator that
  \<open>AdjacencyCore(1, 1, 1.0, 4, 4, 4, 0.1)\<close> constructs, and that operator after
  \<open>points = [[0.0], [1.0]]\<close> and \<open>apply([3.0, 4.0])\<close>. The two last tables
  have \<open>2^31\<close> rows and one column: the first holds \<open>None\<close> and then zeros, the
  second zeros only.
\<close>

definition example_engine :: fastsum_engine where
  "example_engine =
     \<lparr>fastsum_precompute = (\<lambda>pl. pl),
      fastsum_trafo =
        (\<lambda>pl. pl\<lparr>fs_f := map_option (\<lambda>a. replicate (length a) (sum_list a)) (fs_alpha pl)\<rparr>),
      fastsum_exact =
        (\<lambda>pl. pl\<lparr>fs_f := map_option (\<lambda>a. replicate (length a) (sum_list a)) (fs_alpha pl)\<rparr>)\<rparr>"

definition example_numpy :: numpy_env where
  "example_numpy = \<lparr>word_after_n = (\<lambda>n exact. 0), can_allocate = (\<lambda>k. True)\<rparr>"

definition example_numpy_declared :: numpy_env where
  "example_numpy_declared =
     \<lparr>word_after_n = (\<lambda>n exact. if exact then 1 else 0),
      can_allocate = (\<lambda>k. k < 2 ^ 32)\<rparr>"

definition example_numpy_large :: numpy_env where
  "example_numpy_large =
     \<lparr>word_after_n = (\<lambda>n exact. if exact then 1 else 0),
      can_allocate = (\<lambda>k. True)\<rparr>"

definition example_arpack :: arpack where
  "example_arpack =
     \<lparr>dsaupd_c = (\<lambda>n nev tol ncv lworkl st. st\<lparr>ar_ido := 99\<rparr>),
      dseupd_c = (\<lambda>rvecs n nev tol ncv lworkl st. st)\<rparr>"

definition example_probe_arpack :: arpack where
  "example_probe_arpack =
     \<lparr>dsaupd_c = (\<lambda>n nev tol ncv lworkl st. st\<lparr>ar_ido := 99, ar_info := - ncv\<rparr>),
      dseupd_c = (\<lambda>rvecs n nev tol ncv lworkl st. st)\<rparr>"

definition example_args :: "pyobj list" where
  "example_args = [PyLong 1, PyLong 1, PyFloat 1, PyLong 4, PyLong 4, PyLong 4, PyFloat (1 / 10)]"

definition example_plan :: fastsum_plan where
  "example_plan =
     \<lparr>fs_d = 1, fs_kernel = gaussian, fs_kernel_param = 1,
      fs_flags = STORE_PERMUTATION_X_ALPHA, fs_nn = 4, fs_p = 4, fs_eps_I = 0,
      fs_eps_B = 1 / 10, fs_N_total = 0, fs_src_nn_oversampled = 0, fs_src_m = 0,
      fs_M_total = 0, fs_tgt_nn_oversampled = 0, fs_tgt_m = 0,
      fs_x = None, fs_alpha = None, fs_y = None, fs_f = None\<rparr>"

definition example_constructed :: AdjacencyCoreObject where
  "example_constructed =
     \<lparr>ac_kernel = 1, ac_d = 1, ac_sigma = 1, ac_N = 4, ac_p = 4, ac_m = 4, ac_eps = 1 / 10,
      ac_NN = 8, ac_diagonal = 0, ac_n = 0, ac_fastsum = Some example_plan\<rparr>"

definition example_points :: ndarray where
  "example_points = \<lparr>nd_shape = [2, 1], nd_items = [PyFloat 0, PyFloat 1]\<rparr>"

definition example_bound_plan :: fastsum_plan where
  "example_bound_plan =
     example_plan\<lparr>fs_N_total := 2, fs_src_nn_oversampled := 8, fs_src_m := 4,
        fs_M_total := 2, fs_tgt_nn_oversampled := 8, fs_tgt_m := 4,
        fs_x := Some [0, 1], fs_alpha := Some [3, 4], fs_y := Some [0, 1], fs_f := Some [7, 7]\<rparr>"

definition example_bound :: AdjacencyCoreObject where
  "example_bound = example_constructed\<lparr>ac_n := 2, ac_fastsum := Some example_bound_plan\<rparr>"



section \<open>C ints and buffers\<close>

lemma sint_word_of_int_cint:
  "- (2 ^ 31) \<le> k \<Longrightarrow> k < 2 ^ 31 \<Longrightarrow> sint (word_of_int k :: cint) = k"
  by (simp add: sint_sbintrunc' signed_take_bit_int_eq_self)

lemma sint_pow2: "j \<le> 30 \<Longrightarrow> sint ((2::cint) ^ j) = 2 ^ j"
proof -
  assume j: "j \<le> 30"
  have "(2::int) ^ j \<le> 2 ^ 30" using j by (intro power_increasing) auto
  then have "sint (word_of_int (2 ^ j) :: cint) = 2 ^ j"
    by (intro sint_word_of_int_cint) (auto intro: order_trans[of _ 0])
  then show ?thesis by (simp add: word_of_int_2p)
qed

lemma sint_double:
  "- (2 ^ 30) \<le> sint (N::cint) \<Longrightarrow> sint N < 2 ^ 30 \<Longrightarrow> sint (2 * N) = 2 * sint N"
  by (simp add: sint_word_mult signed_take_bit_int_eq_self)

lemma sint_of_nat_cint: "i < 2 ^ 31 \<Longrightarrow> sint (word_of_nat i :: cint) = int i"
proof -
  assume "i < 2 ^ 31"
  then have "int i < 2 ^ 31" by (metis of_nat_less_iff of_nat_numeral of_nat_power)
  then have "sint (word_of_int (int i) :: cint) = int i"
    by (intro sint_word_of_int_cint) auto
  then show ?thesis by simp
qed

lemma nat_sint_bound: "nat (sint (w::cint)) < 2 ^ 31"
  using sint_lt[of w] by (simp add: nat_less_iff)

lemma word_of_nat_nat_sint: "0 \<le> sint (d::cint) \<Longrightarrow> word_of_nat (nat (sint d)) = d"
  by simp

lemma store_at_of_nat:
  "i < length xs \<Longrightarrow> length xs \<le> 2 ^ 31 \<Longrightarrow> store_at xs (word_of_nat i) v = xs[i := v]"
  by (simp add: store_at_def sint_of_nat_cint)

lemma load_at_of_nat:
  "i < 2 ^ 31 \<Longrightarrow> load_at xs (word_of_nat i) = xs ! i"
  by (simp add: load_at_def sint_of_nat_cint)

section \<open>Construction\<close>

lemma init_NN_loop_from:
  assumes N: "- (2 ^ 30) \<le> sint N" "sint N \<le> 2 ^ 29"
    and j: "1 \<le> j" "j \<le> 30" "j = 1 \<or> 2 ^ (j - 1) < 2 * sint N"
  shows "\<exists>k. 1 \<le> k \<and> k \<le> 30 \<and> init_NN_loop N (2 ^ j) = Some (2 ^ k)
           \<and> 2 * sint N \<le> 2 ^ k \<and> (k = 1 \<or> 2 ^ (k - 1) < 2 * sint N)"
  using j
proof (induction "30 - j" arbitrary: j)
  case 0
  then have j30: "j = 30" by simp
  have "2 * sint N \<le> 2 ^ 30" using N by simp
  then have "init_NN_loop N (2 ^ j) = Some (2 ^ j)"
    using N by (subst init_NN_loop.simps) (simp add: j30 sint_double sint_pow2)
  then show ?case using 0 \<open>2 * sint N \<le> 2 ^ 30\<close> j30 by (intro exI[of _ j]) simp
next
  case (Suc d)
  then have jlt: "j < 30" by simp
  have dbl: "sint (2 * N) = 2 * sint N" using N by (simp add: sint_double)
  have pw: "sint ((2::cint) ^ j) = 2 ^ j" using jlt by (simp add: sint_pow2)
  show ?case
  proof (cases "(2::int) ^ j < 2 * sint N")
    case True
    have "d = 30 - Suc j" using Suc.hyps by simp
    moreover have "1 \<le> Suc j" "Suc j \<le> 30" using jlt by simp_all
    moreover have "Suc j = 1 \<or> 2 ^ (Suc j - 1) < 2 * sint N" using True by simp
    ultimately obtain k where k: "1 \<le> k" "k \<le> 30" "init_NN_loop N (2 ^ Suc j) = Some (2 ^ k)"
      "2 * sint N \<le> 2 ^ k" "k = 1 \<or> 2 ^ (k - 1) < 2 * sint N"
      using Suc.hyps(1)[of "Suc j"] by blast
    have "(2::cint) ^ j * 2 = 2 ^ Suc j" by simp
    then have "init_NN_loop N (2 ^ j) = init_NN_loop N (2 ^ Suc j)"
      using True by (subst init_NN_loop.simps) (simp only: dbl pw if_True)
    then show ?thesis using k by (intro exI[of _ k]) simp
  next
    case False
    then have "init_NN_loop N (2 ^ j) = Some (2 ^ j)"
      by (subst init_NN_loop.simps) (simp add: dbl pw)
    then show ?thesis using False Suc.prems by (intro exI[of _ j]) simp
  qed
qed

lemma init_NN_loop_2:
  assumes N: "- (2 ^ 30) \<le> sint N" "sint N \<le> 2 ^ 29"
  shows "\<exists>k. 1 \<le> k \<and> k \<le> 30 \<and> init_NN_loop N 2 = Some (2 ^ k)
           \<and> 2 * sint N \<le> 2 ^ k \<and> (k = 1 \<or> 2 ^ (k - 1) < 2 * sint N)"
  using init_NN_loop_from[OF N, of 1] by simp

lemma parse_i_sint: "parse_i (PyLong (sint (w::cint))) = Inr w"
proof -
  have "- (2 ^ 31) \<le> sint w" using sint_ge[of w] by simp
  moreover have "sint w < 2 ^ 31" using sint_lt[of w] by simp
  ultimately show ?thesis by (simp add: parse_i_def)
qed

lemma parse_d_PyFloat: "parse_d (PyFloat r) = Inr r"
  by (simp add: parse_d_def PyFloat_AsDouble_def)

lemma parse_init_args_7:
  "parse_init_args self
     [PyLong (sint k), PyLong (sint d), PyFloat sigma, PyLong (sint N), PyLong (sint p),
      PyLong (sint m), PyFloat eps] =
   Inr (self\<lparr>ac_kernel := k, ac_d := d, ac_sigma := sigma, ac_N := N, ac_p := p, ac_m := m,
             ac_eps := eps, ac_NN := ac_NN self\<rparr>)"
  by (simp add: parse_init_args_def bind_err_def parse_i_sint parse_d_PyFloat)


lemma init_derives:
  assumes "init_NN_loop N 2 = Some v"
  shows "AdjacencyCore_init new_object
     [PyLong (sint k), PyLong (sint d), PyFloat sigma, PyLong (sint N), PyLong (sint p),
      PyLong (sint m), PyFloat eps] =
    Some (Inr \<lparr>ac_kernel = k, ac_d = d, ac_sigma = sigma, ac_N = N, ac_p = p, ac_m = m,
         ac_eps = eps, ac_NN = v, ac_diagonal = 0, ac_n = 0,
         ac_fastsum = Some (null_nodes (fastsum_init_guru_kernel d (init_kernel_fn k) sigma
            STORE_PERMUTATION_X_ALPHA N p 0 eps))\<rparr>)"
  using assms by (simp add: AdjacencyCore_init_def parse_init_args_7 new_object_def)

text \<open>
  Claim C2, amended. The constructor does not validate \<open>d\<close>, \<open>sigma\<close> or \<open>N\<close>:
  called on a fresh object with seven arguments that parse (the ints in the range of a
  C int) and with \<open>-2^30 \<le> N \<le> 2^29\<close>, it returns an operator that holds exactly the
  given \<open>d\<close>, \<open>sigma\<close> and \<open>N\<close>, has a plan and has \<open>n = 0\<close>, whatever the signs
  of \<open>d\<close>, \<open>sigma\<close> and \<open>N\<close>. It raises an exception only when the arguments do
  not parse.
\<close>

theorem init_no_validation:
  assumes "- (2 ^ 30) \<le> sint N" and "sint N \<le> 2 ^ 29"
  shows "(\<exists>obj. AdjacencyCore_init new_object
            [PyLong (sint (k::cint)), PyLong (sint d), PyFloat sigma, PyLong (sint N),
             PyLong (sint (p::cint)), PyLong (sint (m::cint)), PyFloat eps] = Some (Inr obj)
          \<and> ac_d obj = d \<and> ac_sigma obj = sigma \<and> ac_N obj = N \<and> ac_n obj = 0
          \<and> ac_fastsum obj \<noteq> None)
       \<and> (\<forall>self args e. AdjacencyCore_init self args = Some (Inl e)
             \<longrightarrow> parse_init_args self args = Inl e)"
proof -
  obtain j where "init_NN_loop N 2 = Some (2 ^ j)"
    using init_NN_loop_2[OF assms] by blast
  from init_derives[OF this, of k d sigma p m eps] have "\<exists>obj. AdjacencyCore_init new_object
            [PyLong (sint k), PyLong (sint d), PyFloat sigma, PyLong (sint N), PyLong (sint p),
             PyLong (sint m), PyFloat eps] = Some (Inr obj)
          \<and> ac_d obj = d \<and> ac_sigma obj = sigma \<and> ac_N obj = N \<and> ac_n obj = 0
          \<and> ac_fastsum obj \<noteq> None"
    by simp
  moreover have "\<forall>self args e. AdjacencyCore_init self args = Some (Inl e)
             \<longrightarrow> parse_init_args self args = Inl e"
    by (auto simp: AdjacencyCore_init_def split: sum.splits option.splits)
  ultimately show ?thesis by blast
qed

text \<open>
  Claim C2 as stated fails: with \<open>d = 0\<close>, \<open>sigma = -1\<close> and \<open>N = 0\<close> the
  constructor returns an operator.
\<close>

theorem init_no_validation_counterexample:
  "AdjacencyCore_init new_object
     [PyLong 1, PyLong 0, PyFloat (- 1), PyLong 0, PyLong 4, PyLong 4, PyFloat 0] =
   Some (Inr \<lparr>ac_kernel = 1, ac_d = 0, ac_sigma = - 1, ac_N = 0, ac_p = 4, ac_m = 4,
         ac_eps = 0, ac_NN = 2, ac_diagonal = 0, ac_n = 0,
         ac_fastsum = Some \<lparr>fs_d = 0, fs_kernel = gaussian, fs_kernel_param = - 1,
           fs_flags = STORE_PERMUTATION_X_ALPHA, fs_nn = 0, fs_p = 4, fs_eps_I = 0,
           fs_eps_B = 0, fs_N_total = 0, fs_src_nn_oversampled = 0, fs_src_m = 0,
           fs_M_total = 0, fs_tgt_nn_oversampled = 0, fs_tgt_m = 0,
           fs_x = None, fs_alpha = None, fs_y = None, fs_f = None\<rparr>\<rparr>)"
  by (simp add: AdjacencyCore_init_def parse_init_args_def bind_err_def parse_i_def parse_d_def
      PyFloat_AsDouble_def new_object_def init_NN_loop.simps null_nodes_def
      fastsum_init_guru_kernel_def init_kernel_fn_def)

text \<open>
  An instance of the theorem for C2, with \<open>d = -3\<close>, \<open>sigma = -2\<close> and \<open>N = -5\<close>.
\<close>

theorem init_no_validation_witness:
  "\<exists>obj. AdjacencyCore_init new_object
            [PyLong (sint (1::cint)), PyLong (sint (- 3::cint)), PyFloat (- 2), PyLong (sint (- 5::cint)), PyLong (sint (4::cint)),
             PyLong (sint (4::cint)), PyFloat 0.1] = Some (Inr obj)
          \<and> ac_d obj = - 3 \<and> ac_sigma obj = - 2 \<and> ac_N obj = - 5 \<and> ac_n obj = 0"
  using init_no_validation[of "- 5" 1 "- 3" "- 2" 4 4 "0.1"] by simp blast

text \<open>
  Claim C3, amended. When \<open>NN\<close> is not supplied and \<open>-2^30 \<le> N \<le> 2^29\<close> (so that
  \<open>2*N\<close> and the derived value fit in a C int), the derived \<open>NN\<close> is \<open>2^k\<close> for the
  least \<open>k \<ge> 1\<close> with \<open>2*N \<le> 2^k\<close>: the smallest power of two that is at least 2 and
  at least \<open>2*N\<close>, not strictly greater than \<open>2*N\<close>.
\<close>

theorem init_NN_smallest_power:
  assumes "- (2 ^ 30) \<le> sint (N::cint)" and "sint N \<le> 2 ^ 29"
  shows "\<exists>obj k. AdjacencyCore_init new_object
            [PyLong (sint (kn::cint)), PyLong (sint (d::cint)), PyFloat sigma, PyLong (sint N),
             PyLong (sint (p::cint)), PyLong (sint (m::cint)), PyFloat eps] = Some (Inr obj)
          \<and> 1 \<le> k \<and> sint (ac_NN obj) = 2 ^ k \<and> 2 * sint N \<le> 2 ^ k
          \<and> (\<forall>j\<ge>1. 2 * sint N \<le> 2 ^ j \<longrightarrow> k \<le> j)"
proof -
  obtain k where k: "1 \<le> k" "k \<le> 30" "init_NN_loop N 2 = Some (2 ^ k)"
      "2 * sint N \<le> 2 ^ k" "k = 1 \<or> 2 ^ (k - 1) < 2 * sint N"
    using init_NN_loop_2[OF assms] by blast
  have least: "\<forall>j\<ge>1. 2 * sint N \<le> 2 ^ j \<longrightarrow> k \<le> j"
  proof (intro allI impI)
    fix j :: nat assume j: "1 \<le> j" "2 * sint N \<le> 2 ^ j"
    show "k \<le> j"
    proof (cases "k = 1")
      case True then show ?thesis using j by simp
    next
      case False
      then have "(2::int) ^ (k - 1) < 2 * sint N" using k(5) by simp
      then have "(2::int) ^ (k - 1) < 2 ^ j" using j(2) by (rule less_le_trans)
      then have "k - 1 < j" by simp
      then show ?thesis by simp
    qed
  qed
  have s: "sint ((2::cint) ^ k) = 2 ^ k" using k(2) by (rule sint_pow2)
  obtain obj where o: "AdjacencyCore_init new_object
            [PyLong (sint kn), PyLong (sint d), PyFloat sigma, PyLong (sint N),
             PyLong (sint p), PyLong (sint m), PyFloat eps] = Some (Inr obj)" "ac_NN obj = 2 ^ k"
    using init_derives[OF k(3), of kn d sigma p m eps] by simp
  show ?thesis
    using o s k(1,4) least by (intro exI[of _ obj] exI[of _ k]) simp
qed

text \<open>
  Claim C3 as stated fails at \<open>N = 1\<close>: the derived \<open>NN\<close> is 2, which is not
  strictly greater than \<open>2*N = 2\<close>.
\<close>

theorem init_NN_smallest_power_counterexample:
  "map_option (map_sum id ac_NN)
     (AdjacencyCore_init new_object
        [PyLong 1, PyLong 1, PyFloat 1, PyLong 1, PyLong 4, PyLong 4, PyFloat (1 / 10)])
     = Some (Inr 2)
   \<and> \<not> 2 * sint (1::cint) < sint (2::cint)"
  by (simp add: AdjacencyCore_init_def parse_init_args_def bind_err_def parse_i_def parse_d_def
      PyFloat_AsDouble_def new_object_def init_NN_loop.simps)

text \<open>
  An instance of the theorem for C3: \<open>N = 3\<close> gives \<open>NN = 8\<close>.
\<close>

theorem init_NN_smallest_power_witness:
  "\<exists>obj. AdjacencyCore_init new_object
            [PyLong (sint (1::cint)), PyLong (sint (1::cint)), PyFloat 1, PyLong (sint (3::cint)),
             PyLong (sint (4::cint)), PyLong (sint (4::cint)), PyFloat (1 / 10)] = Some (Inr obj)
          \<and> sint (ac_NN obj) = 8"
proof -
  have h: "- (2 ^ 30) \<le> sint (3::cint)" "sint (3::cint) \<le> 2 ^ 29" by simp_all
  from init_NN_smallest_power[OF h, of 1 1 1 4 4 "1 / 10"]
  obtain obj k where o: "AdjacencyCore_init new_object
            [PyLong (sint (1::cint)), PyLong (sint (1::cint)), PyFloat 1, PyLong (sint (3::cint)),
             PyLong (sint (4::cint)), PyLong (sint (4::cint)), PyFloat (1 / 10)] = Some (Inr obj)"
    and k: "1 \<le> k" "sint (ac_NN obj) = 2 ^ k" "2 * sint (3::cint) \<le> 2 ^ k"
      "\<forall>j\<ge>1. 2 * sint (3::cint) \<le> 2 ^ j \<longrightarrow> k \<le> j"
    by blast
  have "k \<le> 3" using k(4)[rule_format, of 3] by simp
  moreover have "3 \<le> k"
  proof (rule ccontr)
    assume "\<not> 3 \<le> k"
    then have "k \<le> 2" by simp
    then have "(2::int) ^ k \<le> 2 ^ 2" by (intro power_increasing) simp_all
    then show False using k(3) by simp
  qed
  ultimately have "k = 3" by simp
  then show ?thesis using o k(2) by (intro exI[of _ obj]) simp
qed






section \<open>The example values are reachable\<close>

lemmas eval_defs = AdjacencyCore_setpoints_def AdjacencyCore_apply_def AdjacencyCore_getpoints_def
  check_fastsum_def remove_points_def
  null_nodes_def fastsum_init_guru_source_nodes_def fastsum_init_guru_target_nodes_def
  fastsum_finalize_source_nodes_def fastsum_finalize_target_nodes_def
  setpoints_loop_def setpoints_item_def apply_load_def store_def store_at_def load_def load_at_def
  PyArray_NDIM_def PyArray_DIM_def PyArray_GETITEM1_def PyArray_GETITEM2_def PyFloat_AsDouble_def
  points_shape_error_def apply_dim_def PyArray_SimpleNew1_def apply_store_def Let_def

lemma upt_2: "[0..<2] = [0, 1]"
  by (simp add: upt_rec)

lemma replicate_2: "replicate 2 v = [v, v]"
  by (simp add: numeral_2_eq_2)

lemma example_constructed_by_init:
  "AdjacencyCore_init new_object example_args = Some (Inr example_constructed)"
  by (simp add: AdjacencyCore_init_def parse_init_args_def bind_err_def parse_i_def parse_d_def
      PyFloat_AsDouble_def new_object_def init_NN_loop.simps null_nodes_def example_args_def
      fastsum_init_guru_kernel_def init_kernel_fn_def example_constructed_def example_plan_def)

lemma example_bound_by_setpoints_apply:
  "map_option snd
     (AdjacencyCore_apply example_engine example_numpy
        (snd (AdjacencyCore_setpoints example_engine example_constructed
                (PointsArray example_points)))
        (Some (\<lparr>nd_shape = [2], nd_items = [PyFloat 3, PyFloat 4]\<rparr>, False)))
   = Some example_bound"
  by (simp add: eval_defs example_engine_def example_numpy_def example_constructed_def
      example_plan_def
      example_points_def example_bound_def example_bound_plan_def upt_2 replicate_2
      complex_eq_iff)

section \<open>The matrix-vector product\<close>

lemma apply_load_fold:
  assumes "fs_alpha pl = Some a" and "m \<le> length a" and "m \<le> length (nd_items w)"
    and "length a \<le> 2 ^ 31"
  shows "fold (apply_load w) [0..<m] (pl, e) =
           (pl\<lparr>fs_alpha := Some (map (\<lambda>it. Complex (fst (PyFloat_AsDouble it)) 0) (take m (nd_items w)) @ drop m a)\<rparr>,
            e \<or> (\<exists>it \<in> set (take m (nd_items w)). snd (PyFloat_AsDouble it) \<noteq> None))"
  using assms(2,3)
proof (induction m)
  case 0
  then show ?case using assms(1) by simp
next
  case (Suc m)
  let ?g = "\<lambda>it. Complex (fst (PyFloat_AsDouble it)) 0"
  have m: "m < length a" "m < length (nd_items w)" using Suc.prems by simp_all
  have len: "length (map ?g (take m (nd_items w)) @ drop m a) = length a" using m by simp
  have upd: "(map ?g (take m (nd_items w)) @ drop m a)[m := ?g (nd_items w ! m)]
        = map ?g (take (Suc m) (nd_items w)) @ drop (Suc m) a"
    using m by (simp add: take_Suc_conv_app_nth list_update_append Cons_nth_drop_Suc[symmetric])
  have "fold (apply_load w) [0..<Suc m] (pl, e)
      = apply_load w m (fold (apply_load w) [0..<m] (pl, e))" by simp
  also have "\<dots> = apply_load w m (pl\<lparr>fs_alpha := Some (map ?g (take m (nd_items w)) @ drop m a)\<rparr>,
            e \<or> (\<exists>it \<in> set (take m (nd_items w)). snd (PyFloat_AsDouble it) \<noteq> None))"
    using Suc.IH m by simp
  also have "\<dots> = (pl\<lparr>fs_alpha := Some (map ?g (take (Suc m) (nd_items w)) @ drop (Suc m) a)\<rparr>,
            e \<or> (\<exists>it \<in> set (take (Suc m) (nd_items w)). snd (PyFloat_AsDouble it) \<noteq> None))"
  proof -
    have st: "store_at (map ?g (take m (nd_items w)) @ drop m a) (word_of_nat m) (?g (nd_items w ! m))
       = map ?g (take (Suc m) (nd_items w)) @ drop (Suc m) a"
      using store_at_of_nat[of m "map ?g (take m (nd_items w)) @ drop m a"] len m assms(4) upd
      by simp
    have fl: "(\<exists>it \<in> set (take (Suc m) (nd_items w)). snd (PyFloat_AsDouble it) \<noteq> None)
       \<longleftrightarrow> (\<exists>it \<in> set (take m (nd_items w)). snd (PyFloat_AsDouble it) \<noteq> None)
           \<or> snd (PyFloat_AsDouble (nd_items w ! m)) \<noteq> None"
      using m by (auto simp: take_Suc_conv_app_nth)
    show ?thesis
      unfolding apply_load_def Let_def PyArray_GETITEM1_def store_def
      using st fl by auto
  qed
  finally show ?case .
qed

lemma apply_load_all:
  assumes "fs_alpha pl = Some a" and "length a = nat (sint (n::cint))"
    and "length (nd_items w) = nat (sint n)"
  shows "fold (apply_load w) [0..<nat (sint n)] (pl, False) =
           (pl\<lparr>fs_alpha := Some (map (\<lambda>it. Complex (fst (PyFloat_AsDouble it)) 0) (nd_items w))\<rparr>,
            \<exists>it \<in> set (nd_items w). snd (PyFloat_AsDouble it) \<noteq> None)"
proof -
  have "length a \<le> 2 ^ 31" using nat_sint_bound[of n] assms(2) by simp
  then show ?thesis
    using apply_load_fold[OF assms(1), of "nat (sint n)" w False] assms(2,3) by simp
qed


lemma store_at_of_nat_lt:
  "i < length xs \<Longrightarrow> i < 2 ^ 31 \<Longrightarrow> store_at xs (word_of_nat i) v = xs[i := v]"
  by (simp add: store_at_def sint_of_nat_cint)

lemma apply_store_fold:
  assumes "m \<le> length buf" and "m \<le> 2 ^ 31"
  shows "fold (apply_store pl c) [0..<m] buf =
           map (\<lambda>i. Re (load (fs_f pl) (word_of_nat i))
                    + c * Re (load (fs_alpha pl) (word_of_nat i))) [0..<m]
           @ drop m buf"
  using assms
proof (induction m)
  case 0
  show ?case by simp
next
  case (Suc m)
  let ?g = "\<lambda>i. Re (load (fs_f pl) (word_of_nat i)) + c * Re (load (fs_alpha pl) (word_of_nat i))"
  have m: "m < length buf" "m < 2 ^ 31" "m \<le> length buf" "m \<le> 2 ^ 31"
    using Suc.prems by simp_all
  have ih: "fold (apply_store pl c) [0..<m] buf = map ?g [0..<m] @ drop m buf"
    by (rule Suc.IH[OF m(3) m(4)])
  have len: "m < length (map ?g [0..<m] @ drop m buf)" using m(1) by simp
  have st: "apply_store pl c m (map ?g [0..<m] @ drop m buf)
      = (map ?g [0..<m] @ drop m buf)[m := ?g m]"
    unfolding apply_store_def by (rule store_at_of_nat_lt[OF len m(2)])
  have upd: "(map ?g [0..<m] @ drop m buf)[m := ?g m] = map ?g [0..<Suc m] @ drop (Suc m) buf"
    using m(1) by (simp add: list_update_append Cons_nth_drop_Suc[symmetric])
  have "fold (apply_store pl c) [0..<Suc m] buf
      = apply_store pl c m (fold (apply_store pl c) [0..<m] buf)" by simp
  then show ?case by (simp only: ih st upd)
qed

lemma uint_positive_cint:
  assumes "0 < sint (n::cint)"
  shows "uint n = sint n"
proof -
  have "sint n < 2 ^ 31" using sint_lt[of n] by simp
  then have "sint n < 2 ^ 32" by simp
  then have "take_bit 32 (sint n) = sint n" using assms by (simp add: take_bit_int_eq_self)
  then show ?thesis by (simp add: uint_sint)
qed

lemma apply_returns:
  assumes "ac_fastsum self = Some pl0" and "ac_n self \<noteq> 0"
    and "PyArray_NDIM w = 1" and "int (PyArray_DIM w 0) = sint (ac_n self)"
    and "fold (apply_load w) [0..<nat (sint (ac_n self))] (pl0, False) = (pl1, False)"
    and "PyArray_SimpleNew1 M (apply_dim (ac_n self) (word_after_n M (ac_n self) exact))
           = Some fresh"
  shows "AdjacencyCore_apply E M self (Some (w, exact)) =
     Some (Inr \<lparr>nd_shape = [nat (apply_dim (ac_n self) (word_after_n M (ac_n self) exact))],
                nd_items = map PyFloat
                  (fold (apply_store ((if exact then fastsum_exact E else fastsum_trafo E) pl1)
                           (if ac_kernel self = 2 then ac_diagonal self else ac_diagonal self - 1))
                     [0..<nat (sint (ac_n self))] fresh)\<rparr>,
           self\<lparr>ac_fastsum := Some ((if exact then fastsum_exact E else fastsum_trafo E) pl1)\<rparr>)"
  using assms by (cases exact) (simp_all add: AdjacencyCore_apply_def check_fastsum_def Let_def)

text \<open>
  Where the result is the one the spec gives: in a build, and for a call, where the word
  after \<open>n\<close> is zero, and numpy can allocate \<open>n\<close> doubles. The operator has a plan whose weight
  buffer has \<open>n > 0\<close> entries, the weights are an array of shape \<open>(n)\<close> whose entries
  all convert to a double, and the engine's transform leaves the weight buffer as it is
  (the code reads the weights back from it after the transform). Then \<open>apply\<close>
  returns an array of \<open>n\<close> floats whose entry \<open>i\<close> is the real part of the entry
  \<open>i\<close> of the result buffer plus the spec's diagonal correction of the weight \<open>i\<close>.
\<close>

lemma apply_entry_value_high_word_zero:
  assumes fs: "ac_fastsum self = Some pl"
    and n: "0 < sint (ac_n self)"
    and alpha: "fs_alpha pl = Some a" "length a = nat (sint (ac_n self))"
    and shape: "nd_shape w = [nat (sint (ac_n self))]"
      "length (nd_items w) = nat (sint (ac_n self))"
    and numeric: "\<forall>it \<in> set (nd_items w). snd (PyFloat_AsDouble it) = None"
    and engine: "\<forall>q. fs_alpha ((if exact then fastsum_exact E else fastsum_trafo E) q) = fs_alpha q"
    and high: "word_after_n M (ac_n self) exact = 0"
    and mem: "can_allocate M (nat (sint (ac_n self)))"
  shows "\<exists>out pl'. AdjacencyCore_apply E M self (Some (w, exact))
          = Some (Inr out, self\<lparr>ac_fastsum := Some pl'\<rparr>)
      \<and> pl' = (if exact then fastsum_exact E else fastsum_trafo E)
                (pl\<lparr>fs_alpha := Some (map (\<lambda>it. Complex (fst (PyFloat_AsDouble it)) 0) (nd_items w))\<rparr>)
      \<and> nd_shape out = [nat (sint (ac_n self))]
      \<and> length (nd_items out) = nat (sint (ac_n self))
      \<and> (\<forall>i < nat (sint (ac_n self)).
            nd_items out ! i =
              PyFloat (Re (the (fs_f pl') ! i)
                + spec_diagonalCorrection (ac_kernel self) (ac_diagonal self)
                    (fst (PyFloat_AsDouble (nd_items w ! i)))))"
proof -
  let ?n = "nat (sint (ac_n self))"
  let ?g = "\<lambda>it. Complex (fst (PyFloat_AsDouble it)) 0"
  let ?pl1 = "pl\<lparr>fs_alpha := Some (map ?g (nd_items w))\<rparr>"
  let ?tr = "if exact then fastsum_exact E else fastsum_trafo E"
  let ?pl' = "?tr ?pl1"
  let ?h = "\<lambda>c i. Re (load (fs_f ?pl') (word_of_nat i)) + c * Re (load (fs_alpha ?pl') (word_of_nat i))"
  have n0: "ac_n self \<noteq> 0" using n by auto
  have ld: "fold (apply_load w) [0..<?n] (pl, False) = (?pl1, False)"
    using apply_load_all[OF alpha(1,2) shape(2)] numeric by simp
  have al: "fs_alpha ?pl' = Some (map ?g (nd_items w))" using engine by simp
  have rd: "\<And>i. i < ?n \<Longrightarrow> Re (load (fs_alpha ?pl') (word_of_nat i)) = fst (PyFloat_AsDouble (nd_items w ! i))"
  proof -
    fix i assume i: "i < ?n"
    then have "i < 2 ^ 31" using nat_sint_bound[of "ac_n self"] by simp
    then show "Re (load (fs_alpha ?pl') (word_of_nat i)) = fst (PyFloat_AsDouble (nd_items w ! i))"
      using i shape(2) by (simp add: al load_def load_at_of_nat)
  qed
  have rf: "\<And>i. i < ?n \<Longrightarrow> load (fs_f ?pl') (word_of_nat i) = the (fs_f ?pl') ! i"
  proof -
    fix i assume i: "i < ?n"
    then have "i < 2 ^ 31" using nat_sint_bound[of "ac_n self"] by simp
    then show "load (fs_f ?pl') (word_of_nat i) = the (fs_f ?pl') ! i"
      by (simp add: load_def load_at_of_nat)
  qed
  have dm: "apply_dim (ac_n self) (word_after_n M (ac_n self) exact) = sint (ac_n self)"
    by (simp add: apply_dim_def high uint_positive_cint[OF n])
  have new: "PyArray_SimpleNew1 M (sint (ac_n self)) = Some (replicate ?n 0)"
    using n mem by (simp add: PyArray_SimpleNew1_def)
  have n31: "?n \<le> 2 ^ 31" using nat_sint_bound[of "ac_n self"] by simp
  have fl: "\<And>c. fold (apply_store ?pl' c) [0..<?n] (replicate ?n 0) = map (?h c) [0..<?n]"
    using apply_store_fold[of ?n "replicate ?n 0" ?pl', OF _ n31] by simp
  have nd: "PyArray_NDIM w = 1" "int (PyArray_DIM w 0) = sint (ac_n self)"
    using shape(1) n by (simp_all add: PyArray_NDIM_def PyArray_DIM_def)
  have new': "PyArray_SimpleNew1 M (apply_dim (ac_n self) (word_after_n M (ac_n self) exact))
      = Some (replicate ?n 0)"
    by (simp only: dm new)
  have res: "AdjacencyCore_apply E M self (Some (w, exact)) =
     Some (Inr \<lparr>nd_shape = [?n], nd_items = map PyFloat
         (map (?h (if ac_kernel self = 2 then ac_diagonal self else ac_diagonal self - 1))
            [0..<?n])\<rparr>,
      self\<lparr>ac_fastsum := Some ?pl'\<rparr>)"
    by (simp only: apply_returns[OF fs n0 nd ld new'] dm fl)
  show ?thesis
    apply (rule exI, rule exI[of _ ?pl'])
    apply (rule conjI, rule res)
    apply (simp add: rd rf spec_diagonalCorrection_def)
    done
qed

lemma apply_entry_value_instance:
  "AdjacencyCore_apply example_engine example_numpy example_bound
       (Some (\<lparr>nd_shape = [2], nd_items = [PyFloat 5, PyLong 2]\<rparr>, False))
     = Some (Inr \<lparr>nd_shape = [2], nd_items = [PyFloat 2, PyFloat 5]\<rparr>,
             example_bound\<lparr>ac_fastsum :=
               Some (example_bound_plan\<lparr>fs_alpha := Some [5, 2], fs_f := Some [7, 7]\<rparr>)\<rparr>)"
  by (simp add: eval_defs example_engine_def example_numpy_def example_constructed_def
      example_plan_def example_bound_def example_bound_plan_def upt_2 replicate_2 complex_eq_iff)

lemma apply_dies:
  assumes "ac_fastsum self = Some pl0" and "ac_n self \<noteq> 0"
    and "PyArray_NDIM w = 1" and "int (PyArray_DIM w 0) = sint (ac_n self)"
    and "fold (apply_load w) [0..<nat (sint (ac_n self))] (pl0, False) = (pl1, False)"
    and "PyArray_SimpleNew1 M (apply_dim (ac_n self) (word_after_n M (ac_n self) exact)) = None"
  shows "AdjacencyCore_apply E M self (Some (w, exact)) = None"
  using assms by (cases exact) (simp_all add: AdjacencyCore_apply_def check_fastsum_def Let_def)

text \<open>
  Claim C1 holds of the formula and fails on the code at the length of the result. On an
  operator with a plan and \<open>n > 0\<close> points and weights of shape \<open>(n)\<close> that all
  convert, where the word after \<open>n\<close> is 1 (in a build that keeps the order of the
  declarations on line 223 it is the flag \<open>exact\<close>, so this is every call with
  \<open>exact=True\<close>), \<open>apply\<close> asks numpy for \<open>2^32 + n\<close> entries: where numpy
  cannot allocate them the call does not return, and where it can the result has
  \<open>2^32 + n\<close> entries, not \<open>n\<close>.
\<close>

theorem apply_result_length:
  assumes fs: "ac_fastsum self = Some pl"
    and n: "0 < sint (ac_n self)"
    and alpha: "fs_alpha pl = Some a" "length a = nat (sint (ac_n self))"
    and shape: "nd_shape w = [nat (sint (ac_n self))]"
      "length (nd_items w) = nat (sint (ac_n self))"
    and numeric: "\<forall>it \<in> set (nd_items w). snd (PyFloat_AsDouble it) = None"
    and high: "word_after_n M (ac_n self) exact = 1"
  shows "(\<not> can_allocate M (2 ^ 32 + nat (sint (ac_n self))) \<longrightarrow>
            AdjacencyCore_apply E M self (Some (w, exact)) = None)
       \<and> (can_allocate M (2 ^ 32 + nat (sint (ac_n self))) \<longrightarrow>
            (\<exists>out s. AdjacencyCore_apply E M self (Some (w, exact)) = Some (Inr out, s)
               \<and> nd_shape out = [2 ^ 32 + nat (sint (ac_n self))]))"
proof -
  let ?n = "nat (sint (ac_n self))"
  let ?pl1 = "pl\<lparr>fs_alpha := Some (map (\<lambda>it. Complex (fst (PyFloat_AsDouble it)) 0) (nd_items w))\<rparr>"
  have n0: "ac_n self \<noteq> 0" using n by auto
  have ld: "fold (apply_load w) [0..<?n] (pl, False) = (?pl1, False)"
    using apply_load_all[OF alpha(1,2) shape(2)] numeric by simp
  have nd: "PyArray_NDIM w = 1" "int (PyArray_DIM w 0) = sint (ac_n self)"
    using shape(1) n by (simp_all add: PyArray_NDIM_def PyArray_DIM_def)
  have dm: "apply_dim (ac_n self) (word_after_n M (ac_n self) exact) = 2 ^ 32 + sint (ac_n self)"
    by (simp add: apply_dim_def high uint_positive_cint[OF n])
  have nt: "nat (2 ^ 32 + sint (ac_n self)) = 2 ^ 32 + ?n"
    using n by (simp add: nat_add_distrib)
  have dn: "nat (apply_dim (ac_n self) (word_after_n M (ac_n self) exact)) = 2 ^ 32 + ?n"
    by (simp only: dm nt)
  have d0: "0 \<le> apply_dim (ac_n self) (word_after_n M (ac_n self) exact)"
    using n by (simp add: dm)
  show ?thesis
  proof (intro conjI impI)
    assume "\<not> can_allocate M (2 ^ 32 + ?n)"
    then have "PyArray_SimpleNew1 M (apply_dim (ac_n self) (word_after_n M (ac_n self) exact))
        = None"
      by (simp add: PyArray_SimpleNew1_def dn)
    then show "AdjacencyCore_apply E M self (Some (w, exact)) = None"
      by (rule apply_dies[OF fs n0 nd ld])
  next
    assume "can_allocate M (2 ^ 32 + ?n)"
    then have "PyArray_SimpleNew1 M (apply_dim (ac_n self) (word_after_n M (ac_n self) exact))
        = Some (replicate (2 ^ 32 + ?n) 0)"
      using d0 by (simp add: PyArray_SimpleNew1_def dn)
    from apply_returns[OF fs n0 nd ld this, of E]
    show "\<exists>out s. AdjacencyCore_apply E M self (Some (w, exact)) = Some (Inr out, s)
               \<and> nd_shape out = [2 ^ 32 + ?n]"
      by (simp add: dn)
  qed
qed

text \<open>
  The theorem for C1 on the example operator (\<open>n = 2\<close>) and the weights
  \<open>[5.0, 2.0]\<close>, in a build where \<open>exact\<close> is the word after \<open>n\<close>: with
  \<open>exact=True\<close> the code asks for \<open>2^32 + 2\<close> entries, does not return where
  numpy cannot allocate \<open>2^32\<close> entries or more, and returns \<open>2^32 + 2\<close> entries
  where it can. The same call with \<open>exact=False\<close> returns the two entries of the
  claim.
\<close>

theorem apply_result_length_witness:
  "apply_dim (ac_n example_bound)
      (word_after_n example_numpy_declared (ac_n example_bound) True) = 2 ^ 32 + 2
   \<and> AdjacencyCore_apply example_engine example_numpy_declared example_bound
        (Some (\<lparr>nd_shape = [2], nd_items = [PyFloat 5, PyFloat 2]\<rparr>, True)) = None
   \<and> (\<exists>out s. AdjacencyCore_apply example_engine example_numpy_large example_bound
          (Some (\<lparr>nd_shape = [2], nd_items = [PyFloat 5, PyFloat 2]\<rparr>, True)) = Some (Inr out, s)
        \<and> nd_shape out = [2 ^ 32 + 2])
   \<and> AdjacencyCore_apply example_engine example_numpy_declared example_bound
        (Some (\<lparr>nd_shape = [2], nd_items = [PyFloat 5, PyFloat 2]\<rparr>, False))
      = Some (Inr \<lparr>nd_shape = [2], nd_items = [PyFloat 2, PyFloat 5]\<rparr>,
              example_bound\<lparr>ac_fastsum :=
                Some (example_bound_plan\<lparr>fs_alpha := Some [5, 2], fs_f := Some [7, 7]\<rparr>)\<rparr>)"
proof -
  have fs: "ac_fastsum example_bound = Some example_bound_plan"
    by (simp add: example_bound_def)
  have n2: "sint (ac_n example_bound) = 2"
    by (simp add: example_bound_def example_constructed_def)
  have n: "0 < sint (ac_n example_bound)" by (simp add: n2)
  have a: "fs_alpha example_bound_plan = Some [3, 4]"
    "length [3::complex, 4] = nat (sint (ac_n example_bound))"
    by (simp_all add: example_bound_plan_def n2)
  have sh: "nd_shape \<lparr>nd_shape = [2], nd_items = [PyFloat 5, PyFloat 2]\<rparr>
      = [nat (sint (ac_n example_bound))]"
    "length (nd_items \<lparr>nd_shape = [2], nd_items = [PyFloat 5, PyFloat 2]\<rparr>)
      = nat (sint (ac_n example_bound))"
    by (simp_all add: n2)
  have nu: "\<forall>it \<in> set (nd_items \<lparr>nd_shape = [2], nd_items = [PyFloat 5, PyFloat 2]\<rparr>).
      snd (PyFloat_AsDouble it) = None"
    by (simp add: PyFloat_AsDouble_def)
  have h1: "word_after_n example_numpy_declared (ac_n example_bound) True = 1"
    by (simp add: example_numpy_declared_def)
  have h2: "word_after_n example_numpy_large (ac_n example_bound) True = 1"
    by (simp add: example_numpy_large_def)
  have c1: "apply_dim (ac_n example_bound)
      (word_after_n example_numpy_declared (ac_n example_bound) True) = 2 ^ 32 + 2"
    by (simp add: apply_dim_def example_numpy_declared_def example_bound_def
        example_constructed_def)
  have c2: "AdjacencyCore_apply example_engine example_numpy_declared example_bound
        (Some (\<lparr>nd_shape = [2], nd_items = [PyFloat 5, PyFloat 2]\<rparr>, True)) = None"
    using apply_result_length[OF fs n a sh nu h1, of example_engine]
    by (simp add: n2 example_numpy_declared_def)
  have c3: "\<exists>out s. AdjacencyCore_apply example_engine example_numpy_large example_bound
          (Some (\<lparr>nd_shape = [2], nd_items = [PyFloat 5, PyFloat 2]\<rparr>, True)) = Some (Inr out, s)
        \<and> nd_shape out = [2 ^ 32 + 2]"
    using apply_result_length[OF fs n a sh nu h2, of example_engine]
    by (simp add: n2 example_numpy_large_def)
  have c4: "AdjacencyCore_apply example_engine example_numpy_declared example_bound
        (Some (\<lparr>nd_shape = [2], nd_items = [PyFloat 5, PyFloat 2]\<rparr>, False))
      = Some (Inr \<lparr>nd_shape = [2], nd_items = [PyFloat 2, PyFloat 5]\<rparr>,
              example_bound\<lparr>ac_fastsum :=
                Some (example_bound_plan\<lparr>fs_alpha := Some [5, 2], fs_f := Some [7, 7]\<rparr>)\<rparr>)"
    by (simp add: eval_defs example_engine_def example_numpy_declared_def
        example_constructed_def example_plan_def example_bound_def example_bound_plan_def upt_2
        replicate_2 complex_eq_iff)
  from c1 c2 c3 c4 show ?thesis by (intro conjI)
qed

text \<open>
  Claim C7. On an operator with \<open>n = 0\<close>, \<open>apply\<close> and \<open>normalized_eigs\<close> raise
  a RuntimeError, whatever their arguments, and leave the operator as it is.
\<close>

theorem apply_eigs_need_points:
  assumes "ac_n self = 0"
  shows "(\<exists>msg. AdjacencyCore_apply E M self args = Some (Inl (PyErr RuntimeError msg []), self))
       \<and> (\<exists>msg. AdjacencyCore_normalized_eigs E A self eargs
                   = Some (Inl (PyErr RuntimeError msg []), self))"
  using assms
  by (cases "ac_fastsum self")
     (simp_all add: AdjacencyCore_apply_def AdjacencyCore_normalized_eigs_def check_fastsum_def)

text \<open>
  An instance of the theorem for C7, on the operator the constructor returns.
\<close>

theorem apply_eigs_need_points_witness:
  "ac_n example_constructed = 0
   \<and> AdjacencyCore_apply example_engine example_numpy example_constructed
         (Some (\<lparr>nd_shape = [2], nd_items = [PyFloat 5, PyLong 2]\<rparr>, False))
       = Some (Inl (PyErr RuntimeError
            ''AdjacencyCore.points must be given before calling AdjacencyCore.apply'' []),
          example_constructed)
   \<and> AdjacencyCore_normalized_eigs example_engine example_arpack example_constructed
         (Some \<lparr>ea_nev = 1, ea_tol = None, ea_maxiter = None, ea_ncv = None,
                ea_return_eigenvectors = None\<rparr>)
       = Some (Inl (PyErr RuntimeError
            ''AdjacencyCore.points must be given before calling AdjacencyCore.eigs'' []),
          example_constructed)"
proof -
  have n: "ac_n example_constructed = 0" by (simp add: example_constructed_def)
  have f: "ac_fastsum example_constructed \<noteq> None" by (simp add: example_constructed_def)
  from apply_eigs_need_points[OF n] show ?thesis
    using n f
    by (simp add: AdjacencyCore_apply_def AdjacencyCore_normalized_eigs_def check_fastsum_def)
qed

text \<open>
  Claim C5, amended. On an operator with points, weights of the wrong rank or length
  raise a ValueError and leave the operator as it is. Weights of the right shape with an
  entry that does not convert raise a TypeError after the loop has stored every entry:
  the operator is as before except for the weight buffer, which holds the converted
  weights, \<open>-1.0\<close> for each entry that did not convert.
\<close>

theorem apply_malformed_weights:
  assumes "ac_fastsum self = Some pl" and "ac_n self \<noteq> 0"
  shows "(PyArray_NDIM w \<noteq> 1 \<or> int (PyArray_DIM w 0) \<noteq> sint (ac_n self) \<longrightarrow>
            AdjacencyCore_apply E M self (Some (w, exact)) =
              Some (Inl (PyErr ValueError
                 ''First input to AdjacencyCore.apply must be a 1D numpy array with %d entries''
                 [sint (ac_n self)]), self))
       \<and> (nd_shape w = [nat (sint (ac_n self))] \<and> length (nd_items w) = nat (sint (ac_n self))
            \<and> 0 < sint (ac_n self)
            \<and> fs_alpha pl = Some a \<and> length a = nat (sint (ac_n self))
            \<and> (\<exists>it \<in> set (nd_items w). snd (PyFloat_AsDouble it) \<noteq> None) \<longrightarrow>
            AdjacencyCore_apply E M self (Some (w, exact)) =
              Some (Inl (PyErr TypeError
                 ''AdjacencyCore.apply requires a vector of floating point numbers'' []),
               self\<lparr>ac_fastsum := Some (pl\<lparr>fs_alpha :=
                  Some (map (\<lambda>it. Complex (fst (PyFloat_AsDouble it)) 0) (nd_items w))\<rparr>)\<rparr>))"
proof (intro conjI impI)
  assume "PyArray_NDIM w \<noteq> 1 \<or> int (PyArray_DIM w 0) \<noteq> sint (ac_n self)"
  then show "AdjacencyCore_apply E M self (Some (w, exact)) =
              Some (Inl (PyErr ValueError
                 ''First input to AdjacencyCore.apply must be a 1D numpy array with %d entries''
                 [sint (ac_n self)]), self)"
    using assms by (simp add: AdjacencyCore_apply_def check_fastsum_def)
next
  assume h: "nd_shape w = [nat (sint (ac_n self))] \<and> length (nd_items w) = nat (sint (ac_n self))
            \<and> 0 < sint (ac_n self)
            \<and> fs_alpha pl = Some a \<and> length a = nat (sint (ac_n self))
            \<and> (\<exists>it \<in> set (nd_items w). snd (PyFloat_AsDouble it) \<noteq> None)"
  then have ld: "fold (apply_load w) [0..<nat (sint (ac_n self))] (pl, False) =
           (pl\<lparr>fs_alpha := Some (map (\<lambda>it. Complex (fst (PyFloat_AsDouble it)) 0) (nd_items w))\<rparr>,
            True)"
    using apply_load_all[of pl a "ac_n self" w] by simp
  show "AdjacencyCore_apply E M self (Some (w, exact)) =
              Some (Inl (PyErr TypeError
                 ''AdjacencyCore.apply requires a vector of floating point numbers'' []),
               self\<lparr>ac_fastsum := Some (pl\<lparr>fs_alpha :=
                  Some (map (\<lambda>it. Complex (fst (PyFloat_AsDouble it)) 0) (nd_items w))\<rparr>)\<rparr>)"
    unfolding AdjacencyCore_apply_def check_fastsum_def Let_def
    using assms h ld by (simp add: PyArray_NDIM_def PyArray_DIM_def)
qed

text \<open>
  Claim C5 as stated fails: on the example operator, whose weight buffer holds
  \<open>[3, 4]\<close>, the weights \<open>[5.0, 'a']\<close> raise a TypeError and leave \<open>[5, -1]\<close>
  in the weight buffer.
\<close>

theorem apply_malformed_weights_counterexample:
  "AdjacencyCore_apply example_engine example_numpy example_bound
      (Some (\<lparr>nd_shape = [2], nd_items = [PyFloat 5, PyStr ''a'']\<rparr>, False))
     = Some (Inl (PyErr TypeError
          ''AdjacencyCore.apply requires a vector of floating point numbers'' []),
        example_bound\<lparr>ac_fastsum := Some (example_bound_plan\<lparr>fs_alpha := Some [5, - 1]\<rparr>)\<rparr>)
   \<and> example_bound\<lparr>ac_fastsum := Some (example_bound_plan\<lparr>fs_alpha := Some [5, - 1]\<rparr>)\<rparr>
       \<noteq> example_bound"
  by (simp add: eval_defs example_engine_def example_numpy_def example_constructed_def
      example_plan_def example_bound_def example_bound_plan_def upt_2 replicate_2 complex_eq_iff)

text \<open>
  Instances of the theorem for C5: weights of length 3, and the weights \<open>[None, 6.0]\<close>.
\<close>

theorem apply_malformed_weights_witness:
  "AdjacencyCore_apply example_engine example_numpy example_bound
      (Some (\<lparr>nd_shape = [3], nd_items = [PyFloat 5, PyFloat 6, PyFloat 7]\<rparr>, False))
     = Some (Inl (PyErr ValueError
          ''First input to AdjacencyCore.apply must be a 1D numpy array with %d entries'' [2]),
        example_bound)
   \<and> AdjacencyCore_apply example_engine example_numpy example_bound
      (Some (\<lparr>nd_shape = [2], nd_items = [PyNone, PyFloat 6]\<rparr>, False))
     = Some (Inl (PyErr TypeError
          ''AdjacencyCore.apply requires a vector of floating point numbers'' []),
        example_bound\<lparr>ac_fastsum := Some (example_bound_plan\<lparr>fs_alpha := Some [- 1, 6]\<rparr>)\<rparr>)"
proof -
  have h1: "ac_fastsum example_bound = Some example_bound_plan"
    by (simp add: example_bound_def)
  have h2: "ac_n example_bound \<noteq> 0"
    by (simp add: example_bound_def example_constructed_def)
  have n2: "sint (ac_n example_bound) = 2"
    by (simp add: example_bound_def example_constructed_def)
  have a: "fs_alpha example_bound_plan = Some [3, 4]"
    by (simp add: example_bound_plan_def)
  have "AdjacencyCore_apply example_engine example_numpy example_bound
      (Some (\<lparr>nd_shape = [3], nd_items = [PyFloat 5, PyFloat 6, PyFloat 7]\<rparr>, False))
     = Some (Inl (PyErr ValueError
          ''First input to AdjacencyCore.apply must be a 1D numpy array with %d entries'' [2]),
        example_bound)"
    using apply_malformed_weights[OF h1 h2,
        where w="\<lparr>nd_shape = [3], nd_items = [PyFloat 5, PyFloat 6, PyFloat 7]\<rparr>"
          and E=example_engine and M=example_numpy and exact=False and a="[3, 4]"]
    by (simp add: n2 PyArray_NDIM_def PyArray_DIM_def)
  moreover have "AdjacencyCore_apply example_engine example_numpy example_bound
      (Some (\<lparr>nd_shape = [2], nd_items = [PyNone, PyFloat 6]\<rparr>, False))
     = Some (Inl (PyErr TypeError
          ''AdjacencyCore.apply requires a vector of floating point numbers'' []),
        example_bound\<lparr>ac_fastsum := Some (example_bound_plan\<lparr>fs_alpha := Some [- 1, 6]\<rparr>)\<rparr>)"
    using apply_malformed_weights[OF h1 h2,
        where w="\<lparr>nd_shape = [2], nd_items = [PyNone, PyFloat 6]\<rparr>"
          and E=example_engine and M=example_numpy and exact=False and a="[3, 4]"]
    by (simp add: n2 a PyArray_NDIM_def PyArray_DIM_def PyFloat_AsDouble_def complex_eq_iff)
  ultimately show ?thesis by simp
qed

section \<open>The points accessor\<close>

lemma setpoints_item_snd:
  "snd (setpoints_item array d i j st) =
     (snd st \<or> snd (PyFloat_AsDouble (nd_items array ! (i * nd_shape array ! 1 + j))) \<noteq> None)"
  by (simp add: setpoints_item_def Let_def PyArray_GETITEM2_def PyArray_DIM_def)

lemma setpoints_row_snd:
  "snd (fold (\<lambda>j. setpoints_item array d i j) [0..<m] st) =
     (snd st \<or> (\<exists>j<m. snd (PyFloat_AsDouble (nd_items array ! (i * nd_shape array ! 1 + j))) \<noteq> None))"
  by (induction m) (auto simp: setpoints_item_snd less_Suc_eq)

lemma setpoints_rows_snd:
  "snd (fold (\<lambda>i. fold (\<lambda>j. setpoints_item array d i j) [0..<m]) [0..<k] st) =
     (snd st \<or> (\<exists>i<k. \<exists>j<m.
        snd (PyFloat_AsDouble (nd_items array ! (i * nd_shape array ! 1 + j))) \<noteq> None))"
  by (induction k) (auto simp: setpoints_row_snd less_Suc_eq)

lemma row_major_index:
  assumes "t < k * (D::nat)"
  shows "\<exists>i<k. \<exists>j<D. t = i * D + j"
proof -
  have D: "0 < D" using assms by (cases D) auto
  have "t div D < k" using assms D by (simp add: less_mult_imp_div_less)
  moreover have "t mod D < D" using D by simp
  moreover have "t = (t div D) * D + t mod D" by simp
  ultimately show ?thesis by blast
qed

lemma row_major_bound:
  assumes "i < k" "j < (D::nat)"
  shows "i * D + j < k * D"
proof -
  have "i * D + j < i * D + D" using assms by simp
  also have "\<dots> = Suc i * D" by simp
  also have "\<dots> \<le> k * D" using assms by (intro mult_le_mono1) simp
  finally show ?thesis .
qed

lemma setpoints_loop_snd:
  assumes "nd_shape array ! 1 = D" and "length (nd_items array) = k * D"
  shows "snd (fold (\<lambda>i. fold (\<lambda>j. setpoints_item array d i j) [0..<D]) [0..<k] (pl, False)) =
     (\<exists>it \<in> set (nd_items array). snd (PyFloat_AsDouble it) \<noteq> None)"
proof -
  have "(\<exists>i<k. \<exists>j<D. snd (PyFloat_AsDouble (nd_items array ! (i * D + j))) \<noteq> None)
      \<longleftrightarrow> (\<exists>it \<in> set (nd_items array). snd (PyFloat_AsDouble it) \<noteq> None)"
  proof
    assume "\<exists>i<k. \<exists>j<D. snd (PyFloat_AsDouble (nd_items array ! (i * D + j))) \<noteq> None"
    then obtain i j where ij: "i < k" "j < D"
      and b: "snd (PyFloat_AsDouble (nd_items array ! (i * D + j))) \<noteq> None" by blast
    have "i * D + j < length (nd_items array)" using row_major_bound[OF ij] assms(2) by simp
    then have "nd_items array ! (i * D + j) \<in> set (nd_items array)" by simp
    then show "\<exists>it \<in> set (nd_items array). snd (PyFloat_AsDouble it) \<noteq> None" using b by blast
  next
    assume "\<exists>it \<in> set (nd_items array). snd (PyFloat_AsDouble it) \<noteq> None"
    then obtain t where t: "t < length (nd_items array)"
      and b: "snd (PyFloat_AsDouble (nd_items array ! t)) \<noteq> None"
      by (auto simp: in_set_conv_nth)
    from t assms(2) obtain i j where "i < k" "j < D" "t = i * D + j"
      using row_major_index[of t k D] by auto
    then show "\<exists>i<k. \<exists>j<D. snd (PyFloat_AsDouble (nd_items array ! (i * D + j))) \<noteq> None"
      using b by blast
  qed
  then show ?thesis unfolding setpoints_rows_snd assms(1) by simp
qed

lemma setpoints_item_fst:
  assumes st: "fst st = pl0\<lparr>fs_x := Some xs, fs_y := Some ys\<rparr>"
    and len: "length xs = L" "length ys = L" and L: "L \<le> 2 ^ 31"
    and pre: "\<forall>t<i * D + j. xs ! t = fst (PyFloat_AsDouble (nd_items array ! t))
                     \<and> ys ! t = fst (PyFloat_AsDouble (nd_items array ! t))"
    and m: "i * D + j < L" and d: "d = word_of_nat D" and sh: "nd_shape array ! 1 = D"
  shows "\<exists>xs' ys'. fst (setpoints_item array d i j st) = pl0\<lparr>fs_x := Some xs', fs_y := Some ys'\<rparr>
      \<and> length xs' = L \<and> length ys' = L
      \<and> (\<forall>t<i * D + Suc j. xs' ! t = fst (PyFloat_AsDouble (nd_items array ! t))
                     \<and> ys' ! t = fst (PyFloat_AsDouble (nd_items array ! t)))"
proof -
  define m where "m = i * D + j"
  define v where "v = fst (PyFloat_AsDouble (nd_items array ! m))"
  have idx: "word_of_nat i * d + word_of_nat j = (word_of_nat m :: cint)"
    unfolding d m_def by simp
  have mx: "m < length xs" "length xs \<le> 2 ^ 31" using m len L by (simp_all add: m_def)
  have my: "m < length ys" "length ys \<le> 2 ^ 31" using m len L by (simp_all add: m_def)
  have sx: "store_at xs (word_of_nat m) v = xs[m := v]"
    by (rule store_at_of_nat[OF mx])
  have sy: "store_at ys (word_of_nat m) v = ys[m := v]"
    by (rule store_at_of_nat[OF my])
  have item: "PyArray_GETITEM2 array i j = nd_items array ! m"
    unfolding PyArray_GETITEM2_def PyArray_DIM_def sh m_def by (rule refl)
  have r: "fst (setpoints_item array d i j st) = pl0\<lparr>fs_x := Some (xs[m := v]), fs_y := Some (ys[m := v])\<rparr>"
    unfolding setpoints_item_def Let_def idx item store_def st
    by (simp add: sx[unfolded v_def] sy[unfolded v_def] v_def)
  have p: "\<forall>t<Suc m. (xs[m := v]) ! t = fst (PyFloat_AsDouble (nd_items array ! t))
                     \<and> (ys[m := v]) ! t = fst (PyFloat_AsDouble (nd_items array ! t))"
  proof (intro allI impI)
    fix t assume "t < Suc m"
    then consider "t < m" | "t = m" by linarith
    then show "(xs[m := v]) ! t = fst (PyFloat_AsDouble (nd_items array ! t))
                     \<and> (ys[m := v]) ! t = fst (PyFloat_AsDouble (nd_items array ! t))"
    proof cases
      case 1
      then show ?thesis using pre[unfolded m_def[symmetric]] by simp
    next
      case 2
      then show ?thesis using mx(1) my(1) by (simp add: v_def)
    qed
  qed
  have "i * D + Suc j = Suc m" by (simp add: m_def)
  then show ?thesis using r p len by (intro exI[of _ "xs[m := v]"] exI[of _ "ys[m := v]"]) simp
qed

lemma setpoints_row_fst:
  assumes "fst st = pl0\<lparr>fs_x := Some xs, fs_y := Some ys\<rparr>"
    and "length xs = L" "length ys = L" "L \<le> 2 ^ 31"
    and "\<forall>t<i * D. xs ! t = fst (PyFloat_AsDouble (nd_items array ! t))
                     \<and> ys ! t = fst (PyFloat_AsDouble (nd_items array ! t))"
    and "i * D + m \<le> L" and "d = word_of_nat D" and "nd_shape array ! 1 = D"
  shows "\<exists>xs' ys'. fst (fold (\<lambda>j. setpoints_item array d i j) [0..<m] st)
         = pl0\<lparr>fs_x := Some xs', fs_y := Some ys'\<rparr>
      \<and> length xs' = L \<and> length ys' = L
      \<and> (\<forall>t<i * D + m. xs' ! t = fst (PyFloat_AsDouble (nd_items array ! t))
                     \<and> ys' ! t = fst (PyFloat_AsDouble (nd_items array ! t)))"
  using assms(6)
proof (induction m)
  case 0
  then show ?case using assms(1,2,3,5) by (intro exI[of _ xs] exI[of _ ys]) simp
next
  case (Suc m)
  have "i * D + m \<le> L" using Suc.prems by simp
  from Suc.IH[OF this] obtain xs' ys' where s: "fst (fold (\<lambda>j. setpoints_item array d i j) [0..<m] st)
         = pl0\<lparr>fs_x := Some xs', fs_y := Some ys'\<rparr>" "length xs' = L" "length ys' = L"
      "\<forall>t<i * D + m. xs' ! t = fst (PyFloat_AsDouble (nd_items array ! t))
                     \<and> ys' ! t = fst (PyFloat_AsDouble (nd_items array ! t))"
    by blast
  have "i * D + m < L" using Suc.prems by simp
  from setpoints_item_fst[OF s(1) s(2) s(3) assms(4) s(4) this assms(7) assms(8)]
  show ?case by (simp only: upt_Suc_append[OF le0] fold_append fold.simps o_apply id_apply add_Suc_right)
qed

lemma setpoints_rows_step:
  assumes s: "fst (fold (\<lambda>i. fold (\<lambda>j. setpoints_item array d i j) [0..<D]) [0..<k] st)
         = pl0\<lparr>fs_x := Some xs', fs_y := Some ys'\<rparr>" "length xs' = L" "length ys' = L"
      "\<forall>t<k * D. xs' ! t = fst (PyFloat_AsDouble (nd_items array ! t))
                     \<and> ys' ! t = fst (PyFloat_AsDouble (nd_items array ! t))"
   and a: "L \<le> 2 ^ 31" "d = word_of_nat D" "nd_shape array ! 1 = D"
   and le: "k * D + D \<le> L"
  shows "\<exists>xs' ys'. fst (fold (\<lambda>i. fold (\<lambda>j. setpoints_item array d i j) [0..<D]) [0..<Suc k] st)
         = pl0\<lparr>fs_x := Some xs', fs_y := Some ys'\<rparr>
      \<and> length xs' = L \<and> length ys' = L
      \<and> (\<forall>t<Suc k * D. xs' ! t = fst (PyFloat_AsDouble (nd_items array ! t))
                     \<and> ys' ! t = fst (PyFloat_AsDouble (nd_items array ! t)))"
proof -
  have eq: "Suc k * D = k * D + D" by simp
  have f: "fold (\<lambda>i. fold (\<lambda>j. setpoints_item array d i j) [0..<D]) [0..<Suc k] st
     = fold (\<lambda>j. setpoints_item array d k j) [0..<D]
         (fold (\<lambda>i. fold (\<lambda>j. setpoints_item array d i j) [0..<D]) [0..<k] st)"
    by simp
  note r = setpoints_row_fst[OF s(1) s(2) s(3) a(1) s(4) le a(2) a(3)]
  show ?thesis unfolding f eq by (rule r)
qed

lemma setpoints_rows_fst:
  assumes "fst st = pl0\<lparr>fs_x := Some xs, fs_y := Some ys\<rparr>"
    and "length xs = L" "length ys = L" "L \<le> 2 ^ 31"
    and "k * D \<le> L" and "d = word_of_nat D" and "nd_shape array ! 1 = D"
  shows "\<exists>xs' ys'. fst (fold (\<lambda>i. fold (\<lambda>j. setpoints_item array d i j) [0..<D]) [0..<k] st)
         = pl0\<lparr>fs_x := Some xs', fs_y := Some ys'\<rparr>
      \<and> length xs' = L \<and> length ys' = L
      \<and> (\<forall>t<k * D. xs' ! t = fst (PyFloat_AsDouble (nd_items array ! t))
                     \<and> ys' ! t = fst (PyFloat_AsDouble (nd_items array ! t)))"
  using assms(5)
proof (induction k)
  case 0
  show ?case using assms(1,2,3) by (intro exI[of _ xs] exI[of _ ys]) simp
next
  case (Suc k)
  have kd: "k * D \<le> L" using Suc.prems by simp
  have le: "k * D + D \<le> L" using Suc.prems by simp
  from Suc.IH[OF kd] show ?case
  proof (elim exE conjE)
    fix xs' ys'
    assume s: "fst (fold (\<lambda>i. fold (\<lambda>j. setpoints_item array d i j) [0..<D]) [0..<k] st)
         = pl0\<lparr>fs_x := Some xs', fs_y := Some ys'\<rparr>" "length xs' = L" "length ys' = L"
      "\<forall>t<k * D. xs' ! t = fst (PyFloat_AsDouble (nd_items array ! t))
                     \<and> ys' ! t = fst (PyFloat_AsDouble (nd_items array ! t))"
    show ?thesis
      by (rule setpoints_rows_step[OF s assms(4) assms(6) assms(7) le])
  qed
qed

lemma setpoints_loop_fst:
  assumes "length xs = k * D" "length ys = k * D" "k * D \<le> 2 ^ 31"
    and "d = word_of_nat D" and "nd_shape array ! 1 = D" and "length (nd_items array) = k * D"
  shows "fst (fold (\<lambda>i. fold (\<lambda>j. setpoints_item array d i j) [0..<D]) [0..<k]
               (pl0\<lparr>fs_x := Some xs, fs_y := Some ys\<rparr>, e))
         = pl0\<lparr>fs_x := Some (map (\<lambda>it. fst (PyFloat_AsDouble it)) (nd_items array)),
               fs_y := Some (map (\<lambda>it. fst (PyFloat_AsDouble it)) (nd_items array))\<rparr>"
proof -
  have f: "fst (pl0\<lparr>fs_x := Some xs, fs_y := Some ys\<rparr>, e) = pl0\<lparr>fs_x := Some xs, fs_y := Some ys\<rparr>"
    by simp
  from setpoints_rows_fst[OF f assms(1) assms(2) assms(3) order_refl assms(4) assms(5)]
  show ?thesis
  proof (elim exE conjE)
    fix xs' ys'
    assume s: "fst (fold (\<lambda>i. fold (\<lambda>j. setpoints_item array d i j) [0..<D]) [0..<k]
               (pl0\<lparr>fs_x := Some xs, fs_y := Some ys\<rparr>, e))
         = pl0\<lparr>fs_x := Some xs', fs_y := Some ys'\<rparr>" "length xs' = k * D" "length ys' = k * D"
      "\<forall>t<k * D. xs' ! t = fst (PyFloat_AsDouble (nd_items array ! t))
                     \<and> ys' ! t = fst (PyFloat_AsDouble (nd_items array ! t))"
    have "xs' = map (\<lambda>it. fst (PyFloat_AsDouble it)) (nd_items array)"
      using s(2,4) assms(6) by (intro nth_equalityI) simp_all
    moreover have "ys' = map (\<lambda>it. fst (PyFloat_AsDouble it)) (nd_items array)"
      using s(3,4) assms(6) by (intro nth_equalityI) simp_all
    ultimately show ?thesis using s(1) by simp
  qed
qed

lemma remove_points_fastsum:
  "ac_fastsum self = Some pl \<Longrightarrow>
     \<exists>pl1. ac_fastsum (remove_points self) = Some pl1 \<and> fs_d pl1 = fs_d pl"
  by (simp add: remove_points_def null_nodes_def fastsum_finalize_source_nodes_def
      fastsum_finalize_target_nodes_def)

lemma remove_points_fields:
  "ac_n (remove_points self) = 0"
  "ac_d (remove_points self) = ac_d self"
  "(remove_points self)\<lparr>ac_n := a, ac_fastsum := b\<rparr> = self\<lparr>ac_n := a, ac_fastsum := b\<rparr>"
  by (simp_all add: remove_points_def)


lemma sint_rows:
  assumes "0 < k" "k < 2 ^ 31"
  shows "sint (word_of_nat k :: cint) = int k" "0 < sint (word_of_nat k :: cint)"
    "(word_of_nat k :: cint) \<noteq> 0" "nat (sint (word_of_nat k :: cint)) = k"
proof -
  show s: "sint (word_of_nat k :: cint) = int k" using assms(2) by (rule sint_of_nat_cint)
  show "0 < sint (word_of_nat k :: cint)" using s assms(1) by simp
  then show "(word_of_nat k :: cint) \<noteq> 0" by auto
  show "nat (sint (word_of_nat k :: cint)) = k" using s by simp
qed

lemma sint_cols:
  assumes "sint (d::cint) = int D"
  shows "d = word_of_nat D"
proof -
  have "d = word_of_int (sint d)" by simp
  also have "\<dots> = word_of_int (int D)" by (simp only: assms)
  also have "\<dots> = word_of_nat D" by simp
  finally show ?thesis .
qed

lemma setpoints_array:
  assumes fs: "ac_fastsum self = Some pl" 
    and shape: "nd_shape arr = [k, D]" and d: "sint (ac_d self) = int D"
    and k: "0 < k" "k < 2 ^ 31"
  shows "AdjacencyCore_setpoints E self (PointsArray arr) =
    (let self1 = remove_points self;
         n = (word_of_nat k :: cint);
         pl2 = fastsum_init_guru_target_nodes
                 (fastsum_init_guru_source_nodes (the (ac_fastsum self1)) n (ac_NN self1) (ac_m self1))
                 n (ac_NN self1) (ac_m self1);
         st = fold (\<lambda>i. fold (\<lambda>j. setpoints_item arr (ac_d self) i j) [0..<D]) [0..<k] (pl2, False);
         self2 = self1\<lparr>ac_n := n, ac_fastsum := Some (fst st)\<rparr>
     in if snd st then
          (Inl (PyErr TypeError ''AdjacencyCore.points items must be floating point numbers'' []),
           remove_points self2)
        else (Inr (), self2\<lparr>ac_fastsum := Some (fastsum_precompute E (fst st))\<rparr>))"
proof -
  have D: "nat (sint (ac_d self)) = D" using d by simp
  have c: "\<not> (PyArray_NDIM arr \<noteq> 2 \<or> int (PyArray_DIM arr 1) \<noteq> sint (ac_d self))"
    using shape d by (simp add: PyArray_NDIM_def PyArray_DIM_def)
  have n: "(word_of_nat (PyArray_DIM arr 0) :: cint) = word_of_nat k"
    using shape by (simp add: PyArray_DIM_def)
  show ?thesis
    unfolding AdjacencyCore_setpoints_def check_fastsum_def Let_def setpoints_loop_def
    using fs c sint_rows[OF k]
    by (simp add: n D del: of_nat_numeral)
qed

lemma init_nodes_buffers:
  assumes "fs_d pl1 = d" and "sint (d::cint) = int D" and "nat (sint (n::cint)) = k"
  shows "\<exists>pl0. fastsum_init_guru_target_nodes (fastsum_init_guru_source_nodes pl1 n nn m) n nn m
           = pl0\<lparr>fs_x := Some (replicate (k * D) 0), fs_y := Some (replicate (k * D) 0)\<rparr>"
proof -
  let ?pl2 = "fastsum_init_guru_target_nodes (fastsum_init_guru_source_nodes pl1 n nn m) n nn m"
  have x: "fs_x ?pl2 = Some (replicate (k * D) 0)" and y: "fs_y ?pl2 = Some (replicate (k * D) 0)"
    using assms
    by (simp_all add: fastsum_init_guru_target_nodes_def fastsum_init_guru_source_nodes_def)
  have "?pl2 = ?pl2\<lparr>fs_x := Some (replicate (k * D) 0), fs_y := Some (replicate (k * D) 0)\<rparr>"
    using x y by (cases ?pl2) simp
  then show ?thesis by (rule exI)
qed







section \<open>Operators built by the code\<close>

text \<open>
  The theorems above assume an operator with a plan of its own dimension, and for
  the product a weight buffer of \<open>n\<close> entries. The constructor and a successful
  setter establish both.
\<close>

lemma init_establishes:
  assumes "AdjacencyCore_init self args = Some (Inr obj)"
  shows "\<exists>pl. ac_fastsum obj = Some pl \<and> fs_d pl = ac_d obj \<and> fs_alpha pl = None
           \<and> fs_x pl = None"
    and "ac_n obj = 0"
  using assms
  by (auto simp: AdjacencyCore_init_def null_nodes_def fastsum_init_guru_kernel_def
      split: sum.splits option.splits)

lemma setpoints_establishes:
  assumes fs: "ac_fastsum self = Some pl" and pd: "fs_d pl = ac_d self"
    and shape: "nd_shape P = [k, D]" and d: "sint (ac_d self) = int D"
    and k: "0 < k" "k < 2 ^ 31" and range: "k * D < 2 ^ 31"
    and len: "length (nd_items P) = k * D"
    and num: "\<forall>it \<in> set (nd_items P). snd (PyFloat_AsDouble it) = None"
    and pre: "\<forall>q. fs_alpha (fastsum_precompute E q) = fs_alpha q
                 \<and> fs_d (fastsum_precompute E q) = fs_d q"
  shows "\<exists>pl' a. ac_fastsum (snd (AdjacencyCore_setpoints E self (PointsArray P))) = Some pl'
      \<and> fs_d pl' = ac_d (snd (AdjacencyCore_setpoints E self (PointsArray P)))
      \<and> 0 < sint (ac_n (snd (AdjacencyCore_setpoints E self (PointsArray P))))
      \<and> fs_alpha pl' = Some a
      \<and> length a = nat (sint (ac_n (snd (AdjacencyCore_setpoints E self (PointsArray P)))))"
proof -
  define self1 where "self1 = remove_points self"
  define n where "n = (word_of_nat k :: cint)"
  define pl2 where "pl2 = fastsum_init_guru_target_nodes
                 (fastsum_init_guru_source_nodes (the (ac_fastsum self1)) n (ac_NN self1) (ac_m self1))
                 n (ac_NN self1) (ac_m self1)"
  define st where "st = fold (\<lambda>i. fold (\<lambda>j. setpoints_item P (ac_d self) i j) [0..<D]) [0..<k] (pl2, False)"
  define self2 where "self2 = self1\<lparr>ac_n := n, ac_fastsum := Some (fst st)\<rparr>"
  obtain pl1 where pl1: "ac_fastsum (remove_points self) = Some pl1" "fs_d pl1 = fs_d pl"
    using remove_points_fastsum[OF fs] by blast
  have sh1: "nd_shape P ! 1 = D" using shape by simp
  have "\<not> (\<exists>it \<in> set (nd_items P). snd (PyFloat_AsDouble it) \<noteq> None)" using num by simp
  then have flag: "\<not> snd st" unfolding st_def using setpoints_loop_snd[OF sh1 len] by simp
  have d1: "fs_d (the (ac_fastsum self1)) = ac_d self" using pl1 pd by (simp add: self1_def)
  have nk: "nat (sint n) = k" unfolding n_def by (rule sint_rows(4)[OF k])
  obtain pl0 where pl0: "pl2 = pl0\<lparr>fs_x := Some (replicate (k * D) 0),
      fs_y := Some (replicate (k * D) 0)\<rparr>"
    unfolding pl2_def using init_nodes_buffers[OF d1 d nk] by blast
  have range': "k * D \<le> 2 ^ 31" using range by simp
  have x: "fst st = pl0\<lparr>fs_x := Some (map (\<lambda>it. fst (PyFloat_AsDouble it)) (nd_items P)),
       fs_y := Some (map (\<lambda>it. fst (PyFloat_AsDouble it)) (nd_items P))\<rparr>"
    unfolding st_def pl0
    by (rule setpoints_loop_fst[OF _ _ range' sint_cols[OF d] sh1 len]) simp_all
  have a2: "fs_alpha pl2 = Some (replicate k 0)" "fs_d pl2 = ac_d self"
    unfolding pl2_def using d1 nk
    by (simp_all add: fastsum_init_guru_target_nodes_def fastsum_init_guru_source_nodes_def)
  have a0: "fs_alpha (fst st) = Some (replicate k 0)" "fs_d (fst st) = ac_d self"
    using a2 unfolding x pl0 by simp_all
  have res: "AdjacencyCore_setpoints E self (PointsArray P) =
      (Inr (), self2\<lparr>ac_fastsum := Some (fastsum_precompute E (fst st))\<rparr>)"
    using setpoints_array[OF fs shape d k, of E] flag
    unfolding Let_def self1_def[symmetric] n_def[symmetric] pl2_def[symmetric] st_def[symmetric]
      self2_def[symmetric]
    by simp
  show ?thesis
    unfolding res
    apply (rule exI[of _ "fastsum_precompute E (fst st)"])
    apply (rule exI[of _ "replicate k 0"])
    using pre a0 sint_rows[OF k]
    apply (simp add: self2_def self1_def remove_points_fields n_def)
    done
qed

section \<open>The Krylov subspace dimension\<close>

lemma sint_double_plus_one:
  "0 \<le> sint (a::cint) \<Longrightarrow> sint a < 2 ^ 30 \<Longrightarrow> sint (2 * a + 1) = 2 * sint a + 1"
proof -
  assume a: "0 \<le> sint a" "sint a < 2 ^ 30"
  then have d: "sint (2 * a) = 2 * sint a" by (intro sint_double) simp_all
  have "sint (2 * a + 1) = signed_take_bit 31 (sint (2 * a) + sint (1::cint))"
    by (simp add: sint_word_ariths)
  also have "\<dots> = signed_take_bit 31 (2 * sint a + 1)" by (simp add: d)
  also have "\<dots> = 2 * sint a + 1" using a by (intro signed_take_bit_int_eq_self) simp_all
  finally show ?thesis .
qed

lemma eigs_ncv_value:
  assumes "0 < sint n" and "1 \<le> sint nev" and "sint nev < 2 ^ 30" and "sint ncv \<le> 0"
  shows "sint (eigs_ncv n nev ncv) =
           (if sint nev < 10 then 20
            else if sint n \<le> 2 * sint nev then sint n
            else 2 * sint nev + 1)"
proof -
  have d: "sint (2 * nev) = 2 * sint nev" using assms(2,3) by (intro sint_double) simp_all
  have p: "sint (2 * nev + 1) = 2 * sint nev + 1"
    using assms(2,3) by (intro sint_double_plus_one) simp_all
  show ?thesis using assms(4) by (simp add: eigs_ncv_def d p)
qed

lemma eigs_ncv_in_range_iff:
  assumes "0 < sint n" and "1 \<le> sint nev" and "sint nev < 2 ^ 30" and "sint ncv \<le> 0"
  shows "(sint nev < sint (eigs_ncv n nev ncv) \<and> sint (eigs_ncv n nev ncv) \<le> sint n)
       \<longleftrightarrow> (if sint nev < 10 then 20 \<le> sint n else sint nev < sint n)"
  unfolding eigs_ncv_value[OF assms] using assms(2) by auto

lemma eigs_ncv_documented_iff:
  assumes "0 < sint n" and "1 \<le> sint nev" and "sint nev < 2 ^ 30" and "sint ncv \<le> 0"
  shows "sint (eigs_ncv n nev ncv) = eigs_ncv_documented (sint n) (sint nev)
       \<longleftrightarrow> (if sint nev < 10 then 20 \<le> sint n else True)"
  unfolding eigs_ncv_value[OF assms] eigs_ncv_documented_def using assms(2) by auto

text \<open>
  Claim C4 holds of the value and fails on the code at the bound. On the example operator
  (\<open>n = 2\<close>), \<open>normalized_eigs(1)\<close> with \<open>ncv\<close> unset hands \<open>ncv = 20\<close> to
  \<open>dsaupd_c\<close>: the probe reports it in the error code of the exception. The claim
  requires \<open>ncv \<le> n\<close>, and the comment on line 317 documents the default
  \<open>min(n, max(2*nev + 1, 20))\<close>, which is 2 here.
\<close>

theorem eigs_ncv_exceeds_n:
  "AdjacencyCore_normalized_eigs example_engine example_probe_arpack example_bound
      (Some \<lparr>ea_nev = 1, ea_tol = None, ea_maxiter = None, ea_ncv = None,
             ea_return_eigenvectors = None\<rparr>)
     = Some (Inl (PyErr RuntimeError ''ARPACK 'dsaupd' failed with error code %d'' [- 20]),
             example_bound\<lparr>ac_fastsum :=
               Some (example_bound_plan\<lparr>fs_alpha := Some [1, 1], fs_f := Some [2, 2]\<rparr>)\<rparr>)
   \<and> sint (ac_n example_bound) = 2
   \<and> sint (eigs_ncv (ac_n example_bound) 1 0) = 20
   \<and> eigs_ncv_documented (sint (ac_n example_bound)) 1 = 2"
  by (simp add: eval_defs AdjacencyCore_normalized_eigs_def eigs_ncv_def eigs_maxiter_def
      eigs_degrees_def eigs_loop.simps example_engine_def example_probe_arpack_def
      eigs_ncv_documented_def example_constructed_def example_plan_def example_bound_def
      example_bound_plan_def upt_2 replicate_2 complex_eq_iff)


end
